theory Spec2Isabelle
  imports Complex_Main
begin

section \<open>Exceptions\<close>

text \<open>
  The exceptions that the modelled code raises or lets through. \<open>StreamError\<close> carries its
  message; \<open>TypeError\<close> and \<open>IndexError\<close> are the Python built-ins; \<open>OtherError\<close> stands for
  every other exception class (none of them derives from \<open>StreamError\<close>).
\<close>

datatype exn = StreamError string | TypeError | IndexError | OtherError string

fun is_StreamError :: "exn \<Rightarrow> bool" where
  "is_StreamError (StreamError _) = True"
| "is_StreamError _ = False"

section \<open>The polling worker (stream/segmented/polling.py)\<close>

text \<open>
  \<open>PollingSegmentedStreamWorker\<close> keeps \<open>_reload_time\<close> (a float, in seconds) and
  \<open>_reload_last\<close> (a \<open>datetime\<close>). Timestamps and durations are reals, in seconds; a
  \<open>datetime\<close> holds a whole number of microseconds. The arithmetic of lines 35 and 36 is taken
  without the rounding error of floats.
\<close>

record worker =
  reload_time :: real
  reload_last :: real

text \<open>
  What one call of \<open>wait_and_reload\<close> reads from its surroundings: the clock reading of line 34,
  the result of \<open>self.wait(time_wait)\<close> (\<open>True\<close> when the time ran out, \<open>False\<close> when the wait was
  interrupted), the clock reading of line 44 (only read when there was nothing to wait for), and
  what the abstract \<open>reload()\<close> does: return (\<open>None\<close>) or raise.
\<close>

record cycle_env =
  now_start :: real
  wait_completed :: bool
  now_resync :: real
  reload_result :: "exn option"

datatype sched_event = Wait real | CallReload | LogWarning string

text \<open>
  \<open>timedelta(seconds=x)\<close> keeps whole microseconds: the fraction of a microsecond is rounded
  to the nearest one, a half to the even one.
\<close>

definition round_half_even :: "real \<Rightarrow> int" where
  "round_half_even x =
     (let f = \<lfloor>x\<rfloor>; r = x - of_int f
      in if r < 1 / 2 then f else if 1 / 2 < r then f + 1 else if even f then f else f + 1)"

definition timedelta_seconds :: "real \<Rightarrow> real" where
  "timedelta_seconds x = of_int (round_half_even (x * 1000000)) / 1000000"

text \<open>A time that is a whole number of microseconds.\<close>

definition whole_us :: "real \<Rightarrow> bool" where
  "whole_us x = (of_int \<lfloor>x * 1000000\<rfloor> = x * 1000000)"

text \<open>Lines 35 and 36: the time to wait, from the time elapsed since the last reload.\<close>

definition time_wait :: "worker \<Rightarrow> cycle_env \<Rightarrow> real" where
  "time_wait w e =
     (let time_completed = now_start e;
          time_elapsed = max 0 (time_completed - reload_last w)
      in max 0 (reload_time w - time_elapsed))"

text \<open>
  \<open>wait_and_reload\<close>: the worker afterwards, the calls and log lines in order, and the exception
  that leaves the call, if any.
\<close>

definition wait_and_reload ::
  "worker \<Rightarrow> cycle_env \<Rightarrow> worker \<times> sched_event list \<times> exn option" where
  "wait_and_reload w e =
     (let time_completed = now_start e;
          tw = time_wait w e
      in if wait_completed e then
           let w' = (if tw > 0 then w\<lparr>reload_last := time_completed + timedelta_seconds tw\<rparr>
                     else w\<lparr>reload_last := now_resync e\<rparr>)
           in (case reload_result e of
                 None \<Rightarrow> (w', [Wait tw, CallReload], None)
               | Some err \<Rightarrow>
                   (case err of
                      StreamError msg \<Rightarrow>
                        (w', [Wait tw, CallReload, LogWarning (''Reloading failed: '' @ msg)], None)
                    | _ \<Rightarrow> (w', [Wait tw, CallReload], Some err)))
         else (w, [Wait tw], None))"

text \<open>
  Consecutive calls of \<open>wait_and_reload\<close> on one worker, one environment per call. An exception
  that leaves a call ends the sequence, as it ends the thread that makes the calls.
\<close>

fun run_cycles ::
  "worker \<Rightarrow> cycle_env list \<Rightarrow> (worker \<times> sched_event list \<times> exn option) list" where
  "run_cycles w [] = []"
| "run_cycles w (e # es) =
     (let r = wait_and_reload w e
      in r # (case snd (snd r) of None \<Rightarrow> run_cycles (fst r) es | Some _ \<Rightarrow> []))"

text \<open>
  A sequence of cycles in which every reload is over in time: each call starts no earlier than
  the last fire time and less than \<open>reload_time\<close> after it, its wait runs to the end, and its
  reload lets no exception through.
\<close>

fun cycles_in_time :: "worker \<Rightarrow> cycle_env list \<Rightarrow> bool" where
  "cycles_in_time w [] = True"
| "cycles_in_time w (e # es) =
     (reload_last w \<le> now_start e \<and> now_start e - reload_last w < reload_time w
      \<and> wait_completed e
      \<and> (case reload_result e of None \<Rightarrow> True | Some err \<Rightarrow> is_StreamError err)
      \<and> cycles_in_time (fst (wait_and_reload w e)) es)"

text \<open>
  Modelled from the spec: the interruptible sleep \<open>wait\<close> of the parent worker class and the
  stop signal are not among the sources. The spec (4.1) has the sleep return early when a stop
  signal interrupts it, and makes \<open>Stopped\<close> terminal. \<open>is_closed\<close> says that the worker has been
  stopped and \<open>signal\<close> that a stop signal arrives before the sleep is over; the result is the
  new \<open>is_closed\<close> and what \<open>wait\<close> returns.
\<close>

definition wait :: "bool \<Rightarrow> bool \<Rightarrow> bool \<times> bool" where
  "wait is_closed signal = (is_closed \<or> signal, \<not> (is_closed \<or> signal))"

text \<open>
  Consecutive calls of \<open>wait_and_reload\<close> whose waits are the sleep above: every call comes with
  its environment and with whether a stop signal arrives during its sleep.
\<close>

fun run_scheduler :: "bool \<Rightarrow> worker \<Rightarrow> (bool \<times> cycle_env) list \<Rightarrow> sched_event list" where
  "run_scheduler is_closed w [] = []"
| "run_scheduler is_closed w ((signal, e) # ts) =
     (let (is_closed', completed) = wait is_closed signal;
          r = wait_and_reload w (e\<lparr>wait_completed := completed\<rparr>)
      in fst (snd r) @
         (case snd (snd r) of None \<Rightarrow> run_scheduler is_closed' (fst r) ts | Some _ \<Rightarrow> []))"

section \<open>The Vimeo plugin (plugins/vimeo.py)\<close>

subsection \<open>Strings, the two expiry patterns\<close>

text \<open>Python's \<open>s.split(sep)\<close> and \<open>sep.join(parts)\<close>, for a separator of one character.\<close>

fun str_split :: "char \<Rightarrow> string \<Rightarrow> string list" where
  "str_split sep [] = [[]]"
| "str_split sep (c # cs) =
     (if c = sep then [] # str_split sep cs
      else (case str_split sep cs of [] \<Rightarrow> [[c]] | p # ps \<Rightarrow> (c # p) # ps))"

fun str_join :: "string \<Rightarrow> string list \<Rightarrow> string" where
  "str_join sep [] = []"
| "str_join sep [p] = p"
| "str_join sep (p # ps) = p @ sep @ str_join sep ps"

text \<open>
  A string is a list of characters with code points below 256. In that range the decimal
  digits, which \<open>\d\<close> matches and \<open>int()\<close> reads, are \<open>0\<close> to \<open>9\<close>.
\<close>

definition is_digit :: "char \<Rightarrow> bool" where
  "is_digit c = (48 \<le> (of_char c :: nat) \<and> (of_char c :: nat) \<le> 57)"

text \<open>
  \<open>int(ds)\<close> for a string of decimal digits, as an unbounded integer. The interpreter's limit
  on the length of \<open>ds\<close> (4300 digits unless configured otherwise), above which \<open>int()\<close> raises
  \<open>ValueError\<close>, is not part of this function.
\<close>

definition int_of_digits :: "string \<Rightarrow> int" where
  "int_of_digits ds = foldl (\<lambda>n c. 10 * n + (int (of_char c) - 48)) 0 ds"

text \<open>
  A non-empty, greedy run of digits followed by the character \<open>d\<close>, at the start of the string:
  the regular expression \<open>(\d+)d\<close> anchored with \<open>^\<close>; the result is group 1.
\<close>

definition digits_then :: "char \<Rightarrow> string \<Rightarrow> string option" where
  "digits_then d s =
     (case dropWhile is_digit s of
        [] \<Rightarrow> None
      | c # _ \<Rightarrow> if c = d \<and> takeWhile is_digit s \<noteq> [] then Some (takeWhile is_digit s) else None)"

text \<open>\<open>_expiry_re1.search\<close>, the pattern \<open>^exp=(\d+)~\<close>, and \<open>_expiry_re2.search\<close>, \<open>^(\d+)-\<close>.\<close>

definition expiry_re1 :: "string \<Rightarrow> string option" where
  "expiry_re1 s = (if take 4 s = ''exp='' then digits_then CHR ''~'' (drop 4 s) else None)"

definition expiry_re2 :: "string \<Rightarrow> string option" where
  "expiry_re2 s = digits_then CHR ''-'' s"

subsection \<open>VimeoAPI\<close>

text \<open>
  \<open>urlparse\<close> and \<open>geturl\<close> belong to Python's standard library, not to the plugin: they are
  parameters of the model. A parsed URL has the six components of \<open>ParseResult\<close>.
\<close>

record parsed_url =
  url_scheme :: string
  url_netloc :: string
  url_path :: string
  url_params :: string
  url_query :: string
  url_fragment :: string

record urllib =
  urlparse :: "string \<Rightarrow> parsed_url"
  geturl :: "parsed_url \<Rightarrow> string"

text \<open>
  The fields of \<open>VimeoAPI\<close> that change: \<open>auth_data\<close> and \<open>expiry_time\<close> start as \<open>None\<close>,
  \<open>last_updated\<close> is a reading of \<open>time()\<close>, in seconds.
\<close>

record vimeo_api =
  auth_data :: "string option"
  expiry_time :: "int option"
  last_updated :: real
  updating :: bool

definition expiry_time_limit :: int where
  "expiry_time_limit = 60"

text \<open>\<open>set_expiry_time\<close> (lines 127 to 131).\<close>

definition set_expiry_time :: "vimeo_api \<Rightarrow> string \<Rightarrow> exn + vimeo_api" where
  "set_expiry_time api path_arg =
     (let m = (case expiry_re1 path_arg of Some g \<Rightarrow> Some g | None \<Rightarrow> expiry_re2 path_arg)
      in case m of
           None \<Rightarrow> Inl (StreamError ''expiry value not found in URL'')
         | Some g \<Rightarrow> Inr (api\<lparr>expiry_time := Some (int_of_digits g - expiry_time_limit)\<rparr>))"

text \<open>\<open>__init__\<close> of \<open>VimeoAPI\<close> (lines 87 to 93), with its reading of \<open>time()\<close>.\<close>

definition api_init :: "real \<Rightarrow> vimeo_api" where
  "api_init t = \<lparr>auth_data = None, expiry_time = None, last_updated = t, updating = False\<rparr>"

text \<open>
  What a call of \<open>reload_auth_data\<close> reads from its surroundings: the reading of \<open>time()\<close> in
  line 135, the result of \<open>get_data()\<close> and the HTTP session. \<open>get_data()\<close> raises, returns
  \<open>None\<close>, or returns the video data, of which the model keeps \<open>videos["hls"]["cdns"].items()\<close>
  when \<open>videos\<close> has the key \<open>hls\<close>: the CDN names with their URLs (which may be \<open>None\<close>), in
  the order of the dictionary. \<open>session.http.get(url)\<close> raises or returns a response, of which
  the model keeps whether \<open>res.history\<close> is non-empty and \<open>res.url\<close>.
\<close>

record response =
  history :: bool
  res_url :: string

type_synonym cdns = "(string \<times> string option) list"

record refresh_env =
  time_refresh :: real
  get_data :: "exn + cdns option option"
  http_get :: "string option \<Rightarrow> exn + response"

text \<open>
  Lines 146 to 152 and the read of \<open>path_parts[1]\<close>: the token of one candidate, which is the
  second part of the path of its URL, after redirects. \<open>urlparse(None).path\<close> is a bytes
  object, whose \<open>split("/")\<close> raises \<open>TypeError\<close>.
\<close>

definition candidate_token :: "urllib \<Rightarrow> refresh_env \<Rightarrow> string option \<Rightarrow> exn + string" where
  "candidate_token L R video_url =
     (case http_get R video_url of
        Inl err \<Rightarrow> Inl err
      | Inr res \<Rightarrow>
          (case (if history res then Some (res_url res) else video_url) of
             None \<Rightarrow> Inl TypeError
           | Some u \<Rightarrow>
               (let path_parts = str_split CHR ''/'' (url_path (urlparse L u))
                in if length path_parts \<le> 1 then Inl IndexError else Inr (path_parts ! 1))))"

text \<open>
  The loop of lines 145 to 160 over the candidates: \<open>Inr (Some tok)\<close> when it leaves with
  \<open>new_auth = tok\<close>, \<open>Inr None\<close> when it runs to the end.
\<close>

fun find_new_auth :: "urllib \<Rightarrow> refresh_env \<Rightarrow> string \<Rightarrow> cdns \<Rightarrow> exn + string option" where
  "find_new_auth L R auth_part [] = Inr None"
| "find_new_auth L R auth_part ((cdn, video_url) # rest) =
     (case candidate_token L R video_url of
        Inl err \<Rightarrow> Inl err
      | Inr part1 \<Rightarrow>
          (let new_auth =
                 (if expiry_re1 part1 \<noteq> None \<and> expiry_re1 auth_part \<noteq> None then Some part1
                  else if expiry_re2 part1 \<noteq> None \<and> expiry_re2 auth_part \<noteq> None
                  then Some part1
                  else None)
           in (case new_auth of
                 Some tok \<Rightarrow>
                   if tok \<noteq> [] then Inr (Some tok) else find_new_auth L R auth_part rest
               | None \<Rightarrow> find_new_auth L R auth_part rest)))"

text \<open>
  The refresh in the words of the spec (4.2): the encoding family of a token is which of the
  two patterns matches it, tried in order, and a candidate is accepted when its token has the
  family of the hint.
\<close>

datatype family = FamilyExp | FamilyDigits

definition token_family :: "string \<Rightarrow> family option" where
  "token_family tok =
     (if expiry_re1 tok \<noteq> None then Some FamilyExp
      else if expiry_re2 tok \<noteq> None then Some FamilyDigits
      else None)"

definition same_family :: "string \<Rightarrow> string \<Rightarrow> bool" where
  "same_family tok hint = (token_family tok \<noteq> None \<and> token_family tok = token_family hint)"

text \<open>
  \<open>reload_auth_data\<close> (lines 133 to 164): the API object afterwards, and the exception that
  leaves the call or \<open>()\<close>.
\<close>

definition reload_auth_data ::
  "urllib \<Rightarrow> refresh_env \<Rightarrow> vimeo_api \<Rightarrow> string \<Rightarrow> vimeo_api \<times> (exn + unit)" where
  "reload_auth_data L R api auth_part =
     (let api1 = api\<lparr>updating := True, last_updated := time_refresh R\<rparr>
      in case get_data R of
           Inl err \<Rightarrow> (api1, Inl err)
         | Inr None \<Rightarrow> (api1, Inl (StreamError ''no video data found''))
         | Inr (Some None) \<Rightarrow> (api1, Inl (StreamError ''hls key not found in video data''))
         | Inr (Some (Some hls)) \<Rightarrow>
             (case find_new_auth L R auth_part hls of
                Inl err \<Rightarrow> (api1, Inl err)
              | Inr None \<Rightarrow> (api1, Inl (StreamError ''failed to get new auth data from URL''))
              | Inr (Some new_auth) \<Rightarrow>
                  (api1\<lparr>auth_data := Some new_auth, updating := False\<rparr>, Inr ())))"

subsection \<open>VimeoHLSStream\<close>

text \<open>
  The fields \<open>_url\<close>, \<open>_parsed_url\<close>, \<open>_path_parts\<close> and \<open>_need_update\<close> of a stream. The API
  object that the stream refers to is passed next to it.
\<close>

record vimeo_hls_stream =
  s_url :: string
  s_parsed_url :: parsed_url
  s_path_parts :: "string list"
  s_need_update :: bool

text \<open>
  \<open>__init__\<close> of \<open>VimeoHLSStream\<close> (lines 33 to 40), on the URL of the stream and the API
  object: the stream, and the API object with the expiry time of the token in the URL.
\<close>

definition stream_init ::
  "urllib \<Rightarrow> string \<Rightarrow> vimeo_api \<Rightarrow> exn + (vimeo_hls_stream \<times> vimeo_api)" where
  "stream_init L u api =
     (let parsed = urlparse L u;
          parts = str_split CHR ''/'' (url_path parsed)
      in if length parts \<le> 1 then Inl IndexError
         else
           (case set_expiry_time api (parts ! 1) of
              Inl err \<Rightarrow> Inl err
            | Inr api' \<Rightarrow>
                Inr (\<lparr>s_url = u, s_parsed_url = parsed, s_path_parts = parts,
                      s_need_update = False\<rparr>, api')))"

record access_env =
  time_now :: real
  refresh :: refresh_env

datatype url_event = LogDebug string | CallReloadAuthData string

type_synonym url_result = "(vimeo_hls_stream \<times> vimeo_api) \<times> url_event list \<times> (exn + string)"

text \<open>
  Lines 45 to 50 of the property \<open>url\<close>: a pending update is applied once the API is not
  updating. \<open>auth_data\<close> may still be \<open>None\<close>, on which \<open>re.search\<close> raises \<open>TypeError\<close>.
\<close>

definition url_apply_update ::
  "urllib \<Rightarrow> vimeo_hls_stream \<times> vimeo_api
    \<Rightarrow> (vimeo_hls_stream \<times> vimeo_api) \<times> url_event list \<times> (exn + unit)" where
  "url_apply_update L sa =
     (case sa of (s, api) \<Rightarrow>
        if s_need_update s \<and> \<not> updating api then
          (case auth_data api of
             None \<Rightarrow> ((s, api), [], Inl TypeError)
           | Some tok \<Rightarrow>
               (case set_expiry_time api tok of
                  Inl err \<Rightarrow> ((s, api), [], Inl err)
                | Inr api' \<Rightarrow>
                    if length (s_path_parts s) \<le> 1 then ((s, api'), [], Inl IndexError)
                    else
                      let parts = (s_path_parts s)[1 := tok];
                          s' = s\<lparr>s_path_parts := parts,
                                 s_url := geturl L
                                   ((s_parsed_url s)\<lparr>url_path := str_join ''/'' parts\<rparr>),
                                 s_need_update := False\<rparr>
                      in ((s', api'), [LogDebug ''Reloaded Vimeo HLS URL''], Inr ())))
        else ((s, api), [], Inr ()))"

text \<open>
  Lines 52 to 61: the check of the expiry time. Comparing with \<open>expiry_time = None\<close> raises
  \<open>TypeError\<close>.
\<close>

definition url_check_expiry ::
  "urllib \<Rightarrow> access_env \<Rightarrow> vimeo_hls_stream \<times> vimeo_api \<Rightarrow> url_result" where
  "url_check_expiry L E sa =
     (case sa of (s, api) \<Rightarrow>
        (case expiry_time api of
           None \<Rightarrow> ((s, api), [], Inl TypeError)
         | Some expiry \<Rightarrow>
             if time_now E > real_of_int expiry then
               if updating api \<or> time_now E - last_updated api < real_of_int expiry_time_limit
               then ((s\<lparr>s_need_update := True\<rparr>, api), [], Inr (s_url s))
               else if length (s_path_parts s) \<le> 1
               then ((s, api), [LogDebug ''Reloading Vimeo auth data''], Inl IndexError)
               else
                 (case reload_auth_data L (refresh E) api (s_path_parts s ! 1) of
                    (api', Inl err) \<Rightarrow>
                      ((s, api'),
                       [LogDebug ''Reloading Vimeo auth data'',
                        CallReloadAuthData (s_path_parts s ! 1)],
                       Inl err)
                  | (api', Inr _) \<Rightarrow>
                      ((s\<lparr>s_need_update := True\<rparr>, api'),
                       [LogDebug ''Reloading Vimeo auth data'',
                        CallReloadAuthData (s_path_parts s ! 1)],
                       Inr (s_url s)))
             else ((s, api), [], Inr (s_url s))))"

text \<open>The property \<open>url\<close> (lines 43 to 61): one access.\<close>

definition url :: "urllib \<Rightarrow> access_env \<Rightarrow> vimeo_hls_stream \<times> vimeo_api \<Rightarrow> url_result" where
  "url L E sa =
     (case url_apply_update L sa of
        (sa1, tr1, Inl err) \<Rightarrow> (sa1, tr1, Inl err)
      | (sa1, tr1, Inr _) \<Rightarrow>
          (case url_check_expiry L E sa1 of (sa2, tr2, r) \<Rightarrow> (sa2, tr1 @ tr2, r)))"

text \<open>
  Consecutive accesses of \<open>url\<close>, one environment per access, each on the objects as the access
  before left them (also when that access raised).
\<close>

fun url_accesses :: "urllib \<Rightarrow> access_env list \<Rightarrow> vimeo_hls_stream \<times> vimeo_api \<Rightarrow> url_result list" where
  "url_accesses L [] sa = []"
| "url_accesses L (E # Es) sa = (let r = url L E sa in r # url_accesses L Es (fst r))"

subsection \<open>Accesses from several threads\<close>

text \<open>
  Nothing in the plugin locks the API object, and several streams (the variants of a playlist,
  the video and audio parts of a muxed stream) refer to the same one, each read by threads of
  its own. A thread that reads \<open>url\<close> can be interrupted by another between the test of line 54
  and the assignment of line 134, and during the requests of \<open>reload_auth_data\<close>. One access
  is therefore taken in three steps, each without interruption: lines 45 to 57 (up to the
  decision to reload), lines 134 and 135, and lines 137 to 164 with lines 59 and 61. \<open>pc\<close> says
  where a thread is; \<open>AtReload\<close> and \<open>InReload\<close> carry the argument of \<open>reload_auth_data\<close>.
\<close>

datatype pc = AtUrl | AtReload string | InReload string | Returned "exn + string"

definition reload_begin :: "refresh_env \<Rightarrow> vimeo_api \<Rightarrow> vimeo_api" where
  "reload_begin R api = api\<lparr>updating := True, last_updated := time_refresh R\<rparr>"

definition reload_rest ::
  "urllib \<Rightarrow> refresh_env \<Rightarrow> vimeo_api \<Rightarrow> string \<Rightarrow> vimeo_api \<times> (exn + unit)" where
  "reload_rest L R api auth_part =
     (case get_data R of
        Inl err \<Rightarrow> (api, Inl err)
      | Inr None \<Rightarrow> (api, Inl (StreamError ''no video data found''))
      | Inr (Some None) \<Rightarrow> (api, Inl (StreamError ''hls key not found in video data''))
      | Inr (Some (Some hls)) \<Rightarrow>
          (case find_new_auth L R auth_part hls of
             Inl err \<Rightarrow> (api, Inl err)
           | Inr None \<Rightarrow> (api, Inl (StreamError ''failed to get new auth data from URL''))
           | Inr (Some new_auth) \<Rightarrow>
               (api\<lparr>auth_data := Some new_auth, updating := False\<rparr>, Inr ())))"

definition thread_step ::
  "urllib \<Rightarrow> access_env \<Rightarrow> vimeo_api \<times> vimeo_hls_stream \<times> pc
    \<Rightarrow> vimeo_api \<times> vimeo_hls_stream \<times> pc" where
  "thread_step L E x =
     (case x of (api, s, p) \<Rightarrow>
        (case p of
           AtUrl \<Rightarrow>
             (case url_apply_update L (s, api) of
                ((s1, api1), _, Inl err) \<Rightarrow> (api1, s1, Returned (Inl err))
              | ((s1, api1), _, Inr _) \<Rightarrow>
                  (case expiry_time api1 of
                     None \<Rightarrow> (api1, s1, Returned (Inl TypeError))
                   | Some expiry \<Rightarrow>
                       if time_now E > real_of_int expiry then
                         if updating api1
                            \<or> time_now E - last_updated api1 < real_of_int expiry_time_limit
                         then (api1, s1\<lparr>s_need_update := True\<rparr>, Returned (Inr (s_url s1)))
                         else if length (s_path_parts s1) \<le> 1
                         then (api1, s1, Returned (Inl IndexError))
                         else (api1, s1, AtReload (s_path_parts s1 ! 1))
                       else (api1, s1, Returned (Inr (s_url s1)))))
         | AtReload h \<Rightarrow> (reload_begin (refresh E) api, s, InReload h)
         | InReload h \<Rightarrow>
             (case reload_rest L (refresh E) api h of
                (api', Inl err) \<Rightarrow> (api', s, Returned (Inl err))
              | (api', Inr _) \<Rightarrow>
                  (api', s\<lparr>s_need_update := True\<rparr>, Returned (Inr (s_url s))))
         | Returned r \<Rightarrow> (api, s, Returned r)))"







subsection \<open>A concrete stream, for the examples\<close>

text \<open>
  A standard library that is enough for URLs \<open>https://cdn.example/...\<close> without parameters,
  query or fragment; a stream whose token \<open>exp=1700000000~hmac=old\<close> expires (with the margin)
  at 1699999940; and a refresh whose first candidate has a token of the other family and whose
  second candidate is redirected to a URL with the token \<open>exp=1700003600~hmac=new\<close>.
\<close>

definition ex_urllib :: urllib where
  "ex_urllib =
     \<lparr>urlparse = (\<lambda>u. \<lparr>url_scheme = ''https'', url_netloc = ''cdn.example'',
                         url_path = drop 19 u, url_params = [], url_query = [],
                         url_fragment = []\<rparr>),
      geturl = (\<lambda>p. url_scheme p @ ''://'' @ url_netloc p @ url_path p)\<rparr>"

definition ex_api :: vimeo_api where
  "ex_api = \<lparr>auth_data = None, expiry_time = Some 1699999940, last_updated = 1699990000,
             updating = False\<rparr>"

definition ex_stream :: vimeo_hls_stream where
  "ex_stream =
     \<lparr>s_url = ''https://cdn.example/exp=1700000000~hmac=old/v/p.m3u8'',
      s_parsed_url = \<lparr>url_scheme = ''https'', url_netloc = ''cdn.example'',
                      url_path = ''/exp=1700000000~hmac=old/v/p.m3u8'', url_params = [],
                      url_query = [], url_fragment = []\<rparr>,
      s_path_parts = [[], ''exp=1700000000~hmac=old'', ''v'', ''p.m3u8''],
      s_need_update = False\<rparr>"

definition ex_http_get :: "string option \<Rightarrow> exn + response" where
  "ex_http_get video_url =
     (case video_url of
        None \<Rightarrow> Inl (OtherError ''MissingSchema'')
      | Some u \<Rightarrow>
          if u = ''https://cdn.example/live''
          then Inr \<lparr>history = True,
                    res_url = ''https://cdn.example/exp=1700003600~hmac=new/v/p.m3u8''\<rparr>
          else Inr \<lparr>history = False, res_url = u\<rparr>)"

definition ex_cdns :: cdns where
  "ex_cdns = [(''akamai'', Some ''https://cdn.example/1700003600-hmac/v/p.m3u8''),
              (''fastly'', Some ''https://cdn.example/live'')]"

definition ex_refresh :: refresh_env where
  "ex_refresh = \<lparr>time_refresh = 1699999951, get_data = Inr (Some (Some ex_cdns)),
                 http_get = ex_http_get\<rparr>"

text \<open>
  Two more lists of candidates: one whose only candidate has a token that expires when the
  old one does, and one whose first candidate is a URL without a path.
\<close>

definition ex_cdns_stale :: cdns where
  "ex_cdns_stale = [(''fastly'', Some ''https://cdn.example/exp=1700000000~hmac=new/v/p.m3u8'')]"

definition ex_cdns_nopath :: cdns where
  "ex_cdns_nopath = [(''akamai'', Some ''https://cdn.example''),
                     (''fastly'', Some ''https://cdn.example/live'')]"

section \<open>The polling worker: properties\<close>

lemma wait_and_reload_interrupted:
  "\<not> wait_completed e \<Longrightarrow> wait_and_reload w e = (w, [Wait (time_wait w e)], None)"
  by (simp add: wait_and_reload_def)

lemma wait_and_reload_anchor:
  "wait_completed e \<Longrightarrow>
   fst (wait_and_reload w e) =
     (if time_wait w e > 0
      then w\<lparr>reload_last := now_start e + timedelta_seconds (time_wait w e)\<rparr>
      else w\<lparr>reload_last := now_resync e\<rparr>)"
  by (simp add: wait_and_reload_def Let_def split: option.splits exn.splits)

lemma time_wait_in_time:
  "reload_last w \<le> now_start e \<Longrightarrow> now_start e - reload_last w < reload_time w \<Longrightarrow>
   time_wait w e = reload_time w - (now_start e - reload_last w) \<and> time_wait w e > 0"
  by (simp add: time_wait_def Let_def max_def)

lemma time_wait_overrun:
  "reload_time w \<le> now_start e - reload_last w \<Longrightarrow> time_wait w e = 0"
  by (simp add: time_wait_def Let_def max_def)

lemma whole_us_iff: "whole_us x \<longleftrightarrow> (\<exists>n::int. x * 1000000 = of_int n)"
  by (simp add: whole_us_def)

lemma whole_us_add:
  assumes "whole_us x" "whole_us y"
  shows "whole_us (x + y)"
proof -
  from assms obtain n m :: int where "x * 1000000 = of_int n" "y * 1000000 = of_int m"
    unfolding whole_us_iff by blast
  then have "(x + y) * 1000000 = of_int (n + m)" by (simp add: distrib_right)
  then show ?thesis unfolding whole_us_iff by blast
qed

lemma whole_us_diff:
  assumes "whole_us x" "whole_us y"
  shows "whole_us (x - y)"
proof -
  from assms obtain n m :: int where "x * 1000000 = of_int n" "y * 1000000 = of_int m"
    unfolding whole_us_iff by blast
  then have "(x - y) * 1000000 = of_int (n - m)" by (simp add: left_diff_distrib)
  then show ?thesis unfolding whole_us_iff by blast
qed

lemma timedelta_seconds_whole:
  assumes "whole_us x"
  shows "timedelta_seconds x = x"
proof -
  from assms have f: "of_int \<lfloor>x * 1000000\<rfloor> = x * 1000000"
    unfolding whole_us_def .
  then have "x * 1000000 - of_int \<lfloor>x * 1000000\<rfloor> = 0" by linarith
  then have "round_half_even (x * 1000000) = \<lfloor>x * 1000000\<rfloor>"
    unfolding round_half_even_def Let_def by simp
  then have "timedelta_seconds x = of_int \<lfloor>x * 1000000\<rfloor> / 1000000"
    unfolding timedelta_seconds_def by simp
  also have "\<dots> = x" unfolding f by simp
  finally show ?thesis .
qed

lemma wait_and_reload_in_time:
  assumes "reload_last w \<le> now_start e" "now_start e - reload_last w < reload_time w"
    "wait_completed e" "case reload_result e of None \<Rightarrow> True | Some err \<Rightarrow> is_StreamError err"
    "whole_us (reload_time w)" "whole_us (reload_last w)" "whole_us (now_start e)"
  shows "fst (wait_and_reload w e) = w\<lparr>reload_last := reload_last w + reload_time w\<rparr>"
    and "snd (snd (wait_and_reload w e)) = None"
    and "CallReload \<in> set (fst (snd (wait_and_reload w e)))"
proof -
  from time_wait_in_time[OF assms(1,2)]
  have tw: "time_wait w e = reload_time w - (now_start e - reload_last w)" "time_wait w e > 0"
    by simp_all
  have "whole_us (time_wait w e)"
    unfolding tw(1) using assms(5,6,7) by (intro whole_us_diff)
  then have "timedelta_seconds (time_wait w e) = time_wait w e"
    by (rule timedelta_seconds_whole)
  then show "fst (wait_and_reload w e) = w\<lparr>reload_last := reload_last w + reload_time w\<rparr>"
    using assms(3) tw by (simp add: wait_and_reload_anchor)
  show "snd (snd (wait_and_reload w e)) = None"
    using assms(3,4) by (auto simp: wait_and_reload_def Let_def split: option.splits exn.splits)
  show "CallReload \<in> set (fst (snd (wait_and_reload w e)))"
    using assms(3) by (auto simp: wait_and_reload_def Let_def split: option.splits exn.splits)
qed

lemma anchors_shift:
  "(a + t) # map (\<lambda>k. a + t + real k * t) [1..<Suc n]
     = map (\<lambda>k. a + real k * t) [1..<Suc (Suc n)]"
proof -
  have "[1..<Suc (Suc n)] = 1 # map Suc [1..<Suc n]"
    by (simp add: map_Suc_upt upt_conv_Cons del: upt_Suc)
  then show ?thesis by (simp add: o_def algebra_simps del: upt_Suc)
qed

lemma run_cycles_in_time:
  "cycles_in_time w es \<Longrightarrow> whole_us (reload_time w) \<Longrightarrow> whole_us (reload_last w) \<Longrightarrow>
   \<forall>e \<in> set es. whole_us (now_start e) \<Longrightarrow>
   map (\<lambda>r. reload_last (fst r)) (run_cycles w es)
     = map (\<lambda>k. reload_last w + real k * reload_time w) [1..<Suc (length es)]
   \<and> (\<forall>r \<in> set (run_cycles w es). CallReload \<in> set (fst (snd r)) \<and> snd (snd r) = None)
   \<and> length (run_cycles w es) = length es"
proof (induction es arbitrary: w)
  case Nil
  then show ?case by simp
next
  case (Cons e es)
  let ?w' = "w\<lparr>reload_last := reload_last w + reload_time w\<rparr>"
  from Cons.prems have h: "reload_last w \<le> now_start e"
    "now_start e - reload_last w < reload_time w" "wait_completed e"
    "case reload_result e of None \<Rightarrow> True | Some err \<Rightarrow> is_StreamError err"
    "whole_us (reload_time w)" "whole_us (reload_last w)" "whole_us (now_start e)"
    and rest: "cycles_in_time (fst (wait_and_reload w e)) es"
    and us: "\<forall>e \<in> set es. whole_us (now_start e)"
    by simp_all
  note step = wait_and_reload_in_time[OF h]
  from rest step(1) have c': "cycles_in_time ?w' es" by simp
  have w': "whole_us (reload_time ?w')" "whole_us (reload_last ?w')"
    using h(5,6) by (simp_all add: whole_us_add)
  from Cons.IH[OF c' w' us] have IH:
    "map (\<lambda>r. reload_last (fst r)) (run_cycles ?w' es)
       = map (\<lambda>k. reload_last w + reload_time w + real k * reload_time w) [1..<Suc (length es)]"
    "\<forall>r \<in> set (run_cycles ?w' es). CallReload \<in> set (fst (snd r)) \<and> snd (snd r) = None"
    "length (run_cycles ?w' es) = length es"
    by simp_all
  have run: "run_cycles w (e # es) = wait_and_reload w e # run_cycles ?w' es"
    using step(1,2) by (simp add: Let_def)
  have "map (\<lambda>r. reload_last (fst r)) (run_cycles w (e # es))
          = (reload_last w + reload_time w)
            # map (\<lambda>k. reload_last w + reload_time w + real k * reload_time w)
                [1..<Suc (length es)]"
    unfolding run using step(1) IH(1) by simp
  also have "\<dots> = map (\<lambda>k. reload_last w + real k * reload_time w) [1..<Suc (length (e # es))]"
    using anchors_shift[of "reload_last w" "reload_time w" "length es"] by simp
  finally have A: "map (\<lambda>r. reload_last (fst r)) (run_cycles w (e # es))
     = map (\<lambda>k. reload_last w + real k * reload_time w) [1..<Suc (length (e # es))]" .
  have B: "\<forall>r \<in> set (run_cycles w (e # es)). CallReload \<in> set (fst (snd r)) \<and> snd (snd r) = None"
    unfolding run using step(2,3) IH(2) by simp
  have C: "length (run_cycles w (e # es)) = length (e # es)"
    unfolding run using IH(3) by simp
  from A B C show ?case by blast
qed

text \<open>
  Against claim C1 as stated, two cycles whose reload was over in less than \<open>reload_time\<close> and
  whose wait ran to the end. In the first the clock reads 90 at the start of the cycle, behind
  the last fire time 100: the elapsed time counts as 0 and the new fire time is 96, not 106.
  In the second \<open>reload_time\<close> is 6.0000004 seconds: the wait of 5.0000004 seconds is added as
  5 seconds and the new fire time is 106, so the spacing is 6 seconds and not \<open>reload_time\<close>.
\<close>

theorem C1_counterexample:
  "max 0 (now_start \<lparr>now_start = 90, wait_completed = True, now_resync = 97,
                     reload_result = None\<rparr>
          - reload_last \<lparr>reload_time = 6, reload_last = 100\<rparr>)
     < reload_time \<lparr>reload_time = 6, reload_last = 100\<rparr>
   \<and> wait_and_reload \<lparr>reload_time = 6, reload_last = 100\<rparr>
       \<lparr>now_start = 90, wait_completed = True, now_resync = 97, reload_result = None\<rparr>
     = (\<lparr>reload_time = 6, reload_last = 96\<rparr>, [Wait 6, CallReload], None)
   \<and> cycles_in_time \<lparr>reload_time = 6.0000004, reload_last = 100\<rparr>
       [\<lparr>now_start = 101, wait_completed = True, now_resync = 107, reload_result = None\<rparr>]
   \<and> wait_and_reload \<lparr>reload_time = 6.0000004, reload_last = 100\<rparr>
       \<lparr>now_start = 101, wait_completed = True, now_resync = 107, reload_result = None\<rparr>
     = (\<lparr>reload_time = 6.0000004, reload_last = 106\<rparr>, [Wait 5.0000004, CallReload], None)"
  by (simp add: wait_and_reload_def time_wait_def timedelta_seconds_def round_half_even_def
      Let_def)

text \<open>
  Claim C1, as the code has it. After a wait that ran to the end with \<open>time_wait > 0\<close>,
  \<open>_reload_last\<close> is the timestamp taken at the start of the call plus \<open>time_wait\<close> in whole
  microseconds; the clock is not read again. So in every sequence of consecutive cycles in
  which \<open>reload_time\<close> is a whole number of microseconds and each cycle starts no earlier than
  the last fire time and less than \<open>reload_time\<close> after it, every cycle calls \<open>reload()\<close> and
  the fire time of the \<open>k\<close>-th cycle is the first fire time plus \<open>k\<close> times \<open>reload_time\<close>:
  the spacing is exactly \<open>reload_time\<close>.
\<close>

theorem C1_strict_interval:
  "(wait_completed e \<and> time_wait w e > 0 \<longrightarrow>
      reload_last (fst (wait_and_reload w e))
        = now_start e + timedelta_seconds (time_wait w e))
   \<and> (cycles_in_time w es \<and> whole_us (reload_time w) \<and> whole_us (reload_last w)
       \<and> (\<forall>e \<in> set es. whole_us (now_start e)) \<longrightarrow>
        length (run_cycles w es) = length es
        \<and> (\<forall>r \<in> set (run_cycles w es). CallReload \<in> set (fst (snd r)))
        \<and> map (\<lambda>r. reload_last (fst r)) (run_cycles w es)
            = map (\<lambda>k. reload_last w + real k * reload_time w) [1..<Suc (length es)])"
  using run_cycles_in_time[of w es] by (simp add: wait_and_reload_anchor)

theorem C1_strict_interval_witness:
  "cycles_in_time \<lparr>reload_time = 6, reload_last = 100\<rparr>
     [\<lparr>now_start = 101, wait_completed = True, now_resync = 107.5, reload_result = None\<rparr>,
      \<lparr>now_start = 111.25, wait_completed = True, now_resync = 113,
       reload_result = Some (StreamError ''timeout'')\<rparr>]
   \<and> whole_us 6 \<and> whole_us 100 \<and> whole_us 101 \<and> whole_us 111.25
   \<and> 0 < time_wait \<lparr>reload_time = 6, reload_last = 100\<rparr>
        \<lparr>now_start = 101, wait_completed = True, now_resync = 107.5, reload_result = None\<rparr>
   \<and> reload_last (fst (wait_and_reload \<lparr>reload_time = 6, reload_last = 100\<rparr>
        \<lparr>now_start = 101, wait_completed = True, now_resync = 107.5, reload_result = None\<rparr>))
       = 101 + timedelta_seconds 5
   \<and> map (\<lambda>r. reload_last (fst r))
        (run_cycles \<lparr>reload_time = 6, reload_last = 100\<rparr>
          [\<lparr>now_start = 101, wait_completed = True, now_resync = 107.5, reload_result = None\<rparr>,
           \<lparr>now_start = 111.25, wait_completed = True, now_resync = 113,
            reload_result = Some (StreamError ''timeout'')\<rparr>])
       = [106, 112]"
proof -
  let ?w = "\<lparr>reload_time = 6, reload_last = 100\<rparr>"
  let ?es = "[\<lparr>now_start = 101, wait_completed = True, now_resync = 107.5,
               reload_result = None\<rparr>,
              \<lparr>now_start = 111.25, wait_completed = True, now_resync = 113,
               reload_result = Some (StreamError ''timeout'')\<rparr>]"
  have us: "whole_us 6 \<and> whole_us 100 \<and> whole_us 101 \<and> whole_us 111.25"
    by (simp add: whole_us_def)
  have h: "cycles_in_time ?w ?es"
    by (simp add: wait_and_reload_def time_wait_def timedelta_seconds_def round_half_even_def
        Let_def)
  let ?e = "\<lparr>now_start = 101, wait_completed = True, now_resync = 107.5,
              reload_result = None\<rparr>"
  have tw: "time_wait ?w ?e = 5" by (simp add: time_wait_def)
  have a: "reload_last (fst (wait_and_reload ?w ?e)) = 101 + timedelta_seconds 5"
    using C1_strict_interval[of ?e ?w ?es] tw by simp
  have "map (\<lambda>r. reload_last (fst r)) (run_cycles ?w ?es)
          = map (\<lambda>k. reload_last ?w + real k * reload_time ?w) [1..<Suc (length ?es)]"
    using C1_strict_interval[of ?e ?w ?es] h us by simp
  also have "\<dots> = [106, 112]"
    by (simp add: upt_conv_Cons)
  finally show ?thesis using h us a tw by simp
qed

text \<open>
  Claim C8. A cycle that starts \<open>reload_time\<close> or more after the last fire time, and whose wait
  is not interrupted, waits for 0 seconds, calls \<open>reload()\<close> next, and sets \<open>_reload_last\<close> to a
  new reading of the clock; when the clock does not run backwards and the overrun is strict,
  that is later than the old fire time plus \<open>reload_time\<close>.
\<close>

theorem C8_overrun_resync:
  assumes "reload_time w \<le> now_start e - reload_last w" and "wait_completed e"
  shows "time_wait w e = 0
    \<and> take 2 (fst (snd (wait_and_reload w e))) = [Wait 0, CallReload]
    \<and> reload_last (fst (wait_and_reload w e)) = now_resync e
    \<and> (reload_time w < now_start e - reload_last w \<and> now_start e \<le> now_resync e
         \<longrightarrow> reload_last w + reload_time w < reload_last (fst (wait_and_reload w e)))"
proof -
  have tw: "time_wait w e = 0" using assms(1) by (rule time_wait_overrun)
  have ev: "take 2 (fst (snd (wait_and_reload w e))) = [Wait 0, CallReload]"
    using assms(2) tw by (simp add: wait_and_reload_def Let_def split: option.splits exn.splits)
  have r: "reload_last (fst (wait_and_reload w e)) = now_resync e"
    using assms(2) tw by (simp add: wait_and_reload_anchor)
  have "reload_time w < now_start e - reload_last w \<and> now_start e \<le> now_resync e
         \<longrightarrow> reload_last w + reload_time w < reload_last (fst (wait_and_reload w e))"
    unfolding r by linarith
  with tw ev r show ?thesis by blast
qed

theorem C8_overrun_resync_witness:
  "reload_time \<lparr>reload_time = 6, reload_last = 100\<rparr>
     < now_start \<lparr>now_start = 109, wait_completed = True, now_resync = 109.5,
                  reload_result = None\<rparr>
        - reload_last \<lparr>reload_time = 6, reload_last = 100\<rparr>
   \<and> wait_and_reload \<lparr>reload_time = 6, reload_last = 100\<rparr>
        \<lparr>now_start = 109, wait_completed = True, now_resync = 109.5, reload_result = None\<rparr>
      = (\<lparr>reload_time = 6, reload_last = 109.5\<rparr>, [Wait 0, CallReload], None)"
proof -
  let ?w = "\<lparr>reload_time = 6, reload_last = 100\<rparr>"
  let ?e = "\<lparr>now_start = 109, wait_completed = True, now_resync = 109.5,
             reload_result = None\<rparr>"
  have h1: "reload_time ?w \<le> now_start ?e - reload_last ?w" by simp
  have h2: "wait_completed ?e" by simp
  from C8_overrun_resync[OF h1 h2]
  have "time_wait ?w ?e = 0" "reload_last (fst (wait_and_reload ?w ?e)) = now_resync ?e"
    by blast+
  then have "wait_and_reload ?w ?e
               = (\<lparr>reload_time = 6, reload_last = 109.5\<rparr>, [Wait 0, CallReload], None)"
    by (simp add: wait_and_reload_def Let_def)
  then show ?thesis by simp
qed

text \<open>
  Claim C9. In a cycle whose wait ran to the end, a \<open>StreamError\<close> raised by \<open>reload()\<close> is
  caught and logged as a warning: the call returns, the worker is as after a reload that
  succeeded (the fire time already moved on), and the next cycle runs from there. Any other
  exception leaves \<open>wait_and_reload\<close> without a log line and no further cycle runs.
\<close>

theorem C9_stream_error_caught:
  assumes "wait_completed e"
  shows "(reload_result e = Some (StreamError msg) \<longrightarrow>
           wait_and_reload w e
             = (fst (wait_and_reload w (e\<lparr>reload_result := None\<rparr>)),
                [Wait (time_wait w e), CallReload, LogWarning (''Reloading failed: '' @ msg)],
                None)
           \<and> run_cycles w (e # es)
             = wait_and_reload w e
               # run_cycles (fst (wait_and_reload w (e\<lparr>reload_result := None\<rparr>))) es)
    \<and> (reload_result e = Some err \<and> \<not> is_StreamError err \<longrightarrow>
           wait_and_reload w e
             = (fst (wait_and_reload w (e\<lparr>reload_result := None\<rparr>)),
                [Wait (time_wait w e), CallReload], Some err)
           \<and> run_cycles w (e # es) = [wait_and_reload w e])
    \<and> fst (wait_and_reload w (e\<lparr>reload_result := None\<rparr>))
           = (if time_wait w e > 0
              then w\<lparr>reload_last := now_start e + timedelta_seconds (time_wait w e)\<rparr>
              else w\<lparr>reload_last := now_resync e\<rparr>)"
  using assms
  by (auto simp: wait_and_reload_def time_wait_def Let_def split: exn.splits)

theorem C9_stream_error_caught_witness:
  "wait_completed \<lparr>now_start = 101, wait_completed = True, now_resync = 102,
                   reload_result = Some (StreamError ''read timeout'')\<rparr>
   \<and> wait_and_reload \<lparr>reload_time = 6, reload_last = 100\<rparr>
       \<lparr>now_start = 101, wait_completed = True, now_resync = 102,
        reload_result = Some (StreamError ''read timeout'')\<rparr>
     = (\<lparr>reload_time = 6, reload_last = 106\<rparr>,
        [Wait 5, CallReload, LogWarning ''Reloading failed: read timeout''], None)
   \<and> run_cycles \<lparr>reload_time = 6, reload_last = 100\<rparr>
       [\<lparr>now_start = 101, wait_completed = True, now_resync = 102,
         reload_result = Some (OtherError ''KeyError'')\<rparr>,
        \<lparr>now_start = 107, wait_completed = True, now_resync = 108, reload_result = None\<rparr>]
     = [(\<lparr>reload_time = 6, reload_last = 106\<rparr>, [Wait 5, CallReload],
         Some (OtherError ''KeyError''))]"
proof -
  let ?w = "\<lparr>reload_time = 6, reload_last = 100\<rparr>"
  let ?e = "\<lparr>now_start = 101, wait_completed = True, now_resync = 102,
             reload_result = Some (StreamError ''read timeout'')\<rparr>"
  let ?f = "\<lparr>now_start = 101, wait_completed = True, now_resync = 102,
             reload_result = Some (OtherError ''KeyError'')\<rparr>"
  let ?g = "\<lparr>now_start = 107, wait_completed = True, now_resync = 108, reload_result = None\<rparr>"
  have he: "wait_completed ?e" and hf: "wait_completed ?f" by simp_all
  have tw: "time_wait ?w ?e = 5" "time_wait ?w ?f = 5" by (simp_all add: time_wait_def)
  have td: "timedelta_seconds 5 = 5"
    by (simp add: timedelta_seconds_def round_half_even_def Let_def)
  have "wait_and_reload ?w ?e
          = (\<lparr>reload_time = 6, reload_last = 106\<rparr>,
             [Wait 5, CallReload, LogWarning ''Reloading failed: read timeout''], None)"
    using C9_stream_error_caught[OF he, of "''read timeout''" ?w] tw td by simp
  moreover have "run_cycles ?w [?f, ?g]
          = [(\<lparr>reload_time = 6, reload_last = 106\<rparr>, [Wait 5, CallReload],
              Some (OtherError ''KeyError''))]"
    using C9_stream_error_caught[OF hf, of _ ?w "[?g]" "OtherError ''KeyError''"] tw td by simp
  ultimately show ?thesis by simp
qed

lemma run_scheduler_closed: "CallReload \<notin> set (run_scheduler True w ts)"
  by (induction ts arbitrary: w) (auto simp: wait_def wait_and_reload_def Let_def)

lemma run_scheduler_stop:
  "\<exists>tr. run_scheduler c w (pre @ (True, e) # ts) = run_scheduler c w pre @ tr
        \<and> CallReload \<notin> set tr"
proof (induction pre arbitrary: c w)
  case Nil
  have "run_scheduler c w ((True, e) # ts)
          = [Wait (time_wait w (e\<lparr>wait_completed := False\<rparr>))] @ run_scheduler True w ts"
    by (simp add: wait_def wait_and_reload_def Let_def)
  then show ?case using run_scheduler_closed[of w ts] by simp
next
  case (Cons t pre)
  obtain sg e' where t: "t = (sg, e')" by (cases t)
  let ?r = "wait_and_reload w (e'\<lparr>wait_completed := \<not> (c \<or> sg)\<rparr>)"
  show ?case
  proof (cases "snd (snd ?r)")
    case None
    from Cons.IH[of "c \<or> sg" "fst ?r"] obtain tr where
      "run_scheduler (c \<or> sg) (fst ?r) (pre @ (True, e) # ts)
         = run_scheduler (c \<or> sg) (fst ?r) pre @ tr" "CallReload \<notin> set tr"
      by blast
    then show ?thesis using None t by (auto simp: wait_def Let_def)
  next
    case (Some x)
    then show ?thesis using t by (auto simp: wait_def Let_def)
  qed
qed

text \<open>
  Claim C5. A call whose wait is interrupted returns at once: no \<open>reload()\<close>, the worker and
  its \<open>_reload_last\<close> as before, no exception. And with the sleep of the spec, in any sequence
  of calls, the call whose sleep a stop signal interrupts and all calls after it add no
  \<open>reload()\<close> to what the calls before it did.
\<close>

theorem C5_stop_no_reload:
  "(\<not> wait_completed e \<longrightarrow> wait_and_reload w e = (w, [Wait (time_wait w e)], None))
   \<and> (\<exists>tr. run_scheduler c w (pre @ (True, e) # ts) = run_scheduler c w pre @ tr
           \<and> CallReload \<notin> set tr)"
  using run_scheduler_stop[of c w pre e ts] by (simp add: wait_and_reload_interrupted)

theorem C5_stop_no_reload_witness:
  "\<not> wait_completed \<lparr>now_start = 101, wait_completed = False, now_resync = 102,
                      reload_result = None\<rparr>
   \<and> wait_and_reload \<lparr>reload_time = 6, reload_last = 100\<rparr>
       \<lparr>now_start = 101, wait_completed = False, now_resync = 102, reload_result = None\<rparr>
     = (\<lparr>reload_time = 6, reload_last = 100\<rparr>, [Wait 5], None)
   \<and> run_scheduler False \<lparr>reload_time = 6, reload_last = 100\<rparr>
       [(False, \<lparr>now_start = 101, wait_completed = True, now_resync = 102,
                 reload_result = None\<rparr>),
        (True, \<lparr>now_start = 107, wait_completed = True, now_resync = 108,
                reload_result = None\<rparr>),
        (False, \<lparr>now_start = 120, wait_completed = True, now_resync = 121,
                 reload_result = None\<rparr>)]
     = [Wait 5, CallReload, Wait 5, Wait 0]"
proof -
  let ?w = "\<lparr>reload_time = 6, reload_last = 100\<rparr>"
  let ?e = "\<lparr>now_start = 101, wait_completed = False, now_resync = 102,
             reload_result = None\<rparr>"
  have h: "\<not> wait_completed ?e" by simp
  have tw: "time_wait ?w ?e = 5" by (simp add: time_wait_def)
  have "wait_and_reload ?w ?e = (?w, [Wait 5], None)"
    using C5_stop_no_reload[of ?e ?w] h tw by simp
  moreover have "run_scheduler False ?w
       [(False, \<lparr>now_start = 101, wait_completed = True, now_resync = 102,
                 reload_result = None\<rparr>),
        (True, \<lparr>now_start = 107, wait_completed = True, now_resync = 108,
                reload_result = None\<rparr>),
        (False, \<lparr>now_start = 120, wait_completed = True, now_resync = 121,
                 reload_result = None\<rparr>)]
     = [Wait 5, CallReload, Wait 5, Wait 0]"
    by (simp add: wait_def wait_and_reload_def time_wait_def timedelta_seconds_def
        round_half_even_def Let_def)
  ultimately show ?thesis by simp
qed

section \<open>The Vimeo plugin: properties\<close>

lemma digits_then_match:
  assumes "ds \<noteq> []" "\<forall>c \<in> set ds. is_digit c" "\<not> is_digit d"
  shows "digits_then d (ds @ d # rest) = Some ds"
proof -
  have "takeWhile is_digit (ds @ d # rest) = ds" using assms(2,3) by (simp add: takeWhile_append2)
  moreover have "dropWhile is_digit (ds @ d # rest) = d # rest"
    using assms(2,3) by (simp add: dropWhile_append2)
  ultimately show ?thesis using assms(1) by (simp add: digits_then_def)
qed

lemma digits_then_Some:
  assumes "digits_then d s = Some ds"
  shows "ds \<noteq> [] \<and> (\<forall>c \<in> set ds. is_digit c) \<and> (\<exists>rest. s = ds @ d # rest)"
proof -
  from assms obtain rest where dr: "dropWhile is_digit s = d # rest"
    and tk: "takeWhile is_digit s = ds" and ne: "ds \<noteq> []"
    by (auto simp: digits_then_def split: list.splits if_splits)
  have "s = takeWhile is_digit s @ dropWhile is_digit s" by simp
  then have "s = ds @ d # rest" using dr tk by simp
  moreover have "\<forall>c \<in> set ds. is_digit c" using tk by (metis set_takeWhileD)
  ultimately show ?thesis using ne by blast
qed

lemma expiry_re1_match:
  "ds \<noteq> [] \<Longrightarrow> \<forall>c \<in> set ds. is_digit c \<Longrightarrow> expiry_re1 (''exp='' @ ds @ ''~'' @ rest) = Some ds"
  using digits_then_match[of ds "CHR ''~''" rest] by (simp add: expiry_re1_def is_digit_def)

lemma expiry_re2_match:
  "ds \<noteq> [] \<Longrightarrow> \<forall>c \<in> set ds. is_digit c \<Longrightarrow> expiry_re2 (ds @ ''-'' @ rest) = Some ds"
  using digits_then_match[of ds "CHR ''-''" rest] by (simp add: expiry_re2_def is_digit_def)

lemma expiry_re1_Some:
  assumes "expiry_re1 s = Some ds"
  shows "ds \<noteq> [] \<and> (\<forall>c \<in> set ds. is_digit c) \<and> (\<exists>rest. s = ''exp='' @ ds @ ''~'' @ rest)"
proof -
  from assms have t: "take 4 s = ''exp=''" and d: "digits_then CHR ''~'' (drop 4 s) = Some ds"
    by (auto simp: expiry_re1_def split: if_splits)
  from digits_then_Some[OF d] obtain rest where
    "ds \<noteq> []" "\<forall>c \<in> set ds. is_digit c" "drop 4 s = ds @ CHR ''~'' # rest" by blast
  moreover have "s = take 4 s @ drop 4 s" by simp
  ultimately have "s = ''exp='' @ ds @ ''~'' @ rest" using t by simp
  then show ?thesis using \<open>ds \<noteq> []\<close> \<open>\<forall>c \<in> set ds. is_digit c\<close> by blast
qed

lemma expiry_re2_Some:
  "expiry_re2 s = Some ds \<Longrightarrow>
   ds \<noteq> [] \<and> (\<forall>c \<in> set ds. is_digit c) \<and> (\<exists>rest. s = ds @ ''-'' @ rest)"
  using digits_then_Some[of "CHR ''-''" s ds] by (simp add: expiry_re2_def)

text \<open>No string matches both patterns: the first starts with \<open>e\<close>, the second with a digit.\<close>

lemma expiry_re_disjoint: "expiry_re1 s \<noteq> None \<Longrightarrow> expiry_re2 s = None"
proof (rule ccontr)
  assume a: "expiry_re1 s \<noteq> None" and b: "expiry_re2 s \<noteq> None"
  from a obtain g where "expiry_re1 s = Some g" by blast
  from expiry_re1_Some[OF this] obtain r1 where s1: "s = ''exp='' @ g @ ''~'' @ r1" by blast
  from b obtain h where "expiry_re2 s = Some h" by blast
  from expiry_re2_Some[OF this] obtain r2 where
    h: "h \<noteq> []" "\<forall>c \<in> set h. is_digit c" "s = h @ ''-'' @ r2" by blast
  from h(1) obtain c h' where hc: "h = c # h'" by (cases h) auto
  with h(3) s1 have "c = CHR ''e''" by simp
  moreover from hc h(2) have "is_digit c" by simp
  ultimately show False by (simp add: is_digit_def)
qed

lemma same_family_iff:
  "same_family tok hint \<longleftrightarrow>
     (expiry_re1 tok \<noteq> None \<and> expiry_re1 hint \<noteq> None)
     \<or> (expiry_re2 tok \<noteq> None \<and> expiry_re2 hint \<noteq> None)"
  using expiry_re_disjoint[of tok] expiry_re_disjoint[of hint]
  by (auto simp: same_family_def token_family_def)

lemma expiry_re_nonempty: "expiry_re1 tok \<noteq> None \<or> expiry_re2 tok \<noteq> None \<Longrightarrow> tok \<noteq> []"
  by (auto simp: expiry_re1_def expiry_re2_def digits_then_def)

lemma find_new_auth_Cons:
  "find_new_auth L R hint ((n, v) # rest) =
     (case candidate_token L R v of
        Inl err \<Rightarrow> Inl err
      | Inr t \<Rightarrow> if same_family t hint then Inr (Some t) else find_new_auth L R hint rest)"
proof (cases "candidate_token L R v")
  case (Inl err)
  then show ?thesis by simp
next
  case (Inr t)
  show ?thesis
  proof (cases "same_family t hint")
    case True
    then have m: "(expiry_re1 t \<noteq> None \<and> expiry_re1 hint \<noteq> None)
       \<or> (expiry_re2 t \<noteq> None \<and> expiry_re2 hint \<noteq> None)" by (simp add: same_family_iff)
    then have "t \<noteq> []" using expiry_re_nonempty[of t] by blast
    with m show ?thesis
      by (cases "expiry_re1 t \<noteq> None \<and> expiry_re1 hint \<noteq> None")
        (auto simp: Inr True Let_def)
  next
    case False
    then have "\<not> (expiry_re1 t \<noteq> None \<and> expiry_re1 hint \<noteq> None)"
      "\<not> (expiry_re2 t \<noteq> None \<and> expiry_re2 hint \<noteq> None)"
      by (simp_all add: same_family_iff)
    then show ?thesis by (auto simp: Inr False Let_def)
  qed
qed

declare find_new_auth.simps(2) [simp del]

lemma find_new_auth_hit:
  assumes "candidate_token L R v = Inr t" "same_family t hint"
  shows "find_new_auth L R hint ((n, v) # rest) = Inr (Some t)"
  using assms by (simp add: find_new_auth_Cons)

lemma find_new_auth_skip:
  assumes "candidate_token L R v = Inr t" "\<not> same_family t hint"
  shows "find_new_auth L R hint ((n, v) # rest) = find_new_auth L R hint rest"
  using assms by (simp add: find_new_auth_Cons)

lemma find_new_auth_first:
  assumes "\<forall>c \<in> set pre. \<exists>t. candidate_token L R (snd c) = Inr t \<and> \<not> same_family t hint"
  shows "find_new_auth L R hint (pre @ rest) = find_new_auth L R hint rest"
  using assms
proof (induction pre)
  case Nil
  then show ?case by simp
next
  case (Cons c pre)
  obtain n v where c: "c = (n, v)" by (cases c)
  from Cons.prems c obtain t where "candidate_token L R v = Inr t" "\<not> same_family t hint"
    by auto
  then have "find_new_auth L R hint ((n, v) # (pre @ rest)) = find_new_auth L R hint (pre @ rest)"
    by (rule find_new_auth_skip)
  with Cons c show ?case by simp
qed

lemma ex_token_akamai:
  "candidate_token ex_urllib ex_refresh (Some ''https://cdn.example/1700003600-hmac/v/p.m3u8'')
     = Inr ''1700003600-hmac''"
  by (simp add: candidate_token_def ex_urllib_def ex_refresh_def ex_http_get_def)

lemma ex_token_fastly:
  "candidate_token ex_urllib ex_refresh (Some ''https://cdn.example/live'')
     = Inr ''exp=1700003600~hmac=new''"
  by (simp add: candidate_token_def ex_urllib_def ex_refresh_def ex_http_get_def)

lemma ex_families:
  "token_family ''exp=1700000000~hmac=old'' = Some FamilyExp"
  "token_family ''exp=1700003600~hmac=new'' = Some FamilyExp"
  "token_family ''1700003600-hmac'' = Some FamilyDigits"
  by (simp_all add: token_family_def expiry_re1_def expiry_re2_def digits_then_def is_digit_def)

lemma token_family_forms:
  assumes "ds \<noteq> []" "\<forall>c \<in> set ds. is_digit c"
  shows "token_family (''exp='' @ ds @ ''~'' @ rest) = Some FamilyExp"
    and "token_family (ds @ ''-'' @ rest) = Some FamilyDigits"
proof -
  show "token_family (''exp='' @ ds @ ''~'' @ rest) = Some FamilyExp"
    using expiry_re1_match[OF assms, of rest] by (simp add: token_family_def)
  have r2: "expiry_re2 (ds @ ''-'' @ rest) = Some ds" using assms by (rule expiry_re2_match)
  then have "expiry_re1 (ds @ ''-'' @ rest) = None"
    using expiry_re_disjoint[of "ds @ ''-'' @ rest"]
    by (cases "expiry_re1 (ds @ ''-'' @ rest)") simp_all
  with r2 show "token_family (ds @ ''-'' @ rest) = Some FamilyDigits"
    by (simp add: token_family_def)
qed

lemma token_family_None:
  assumes "\<nexists>gs rs. gs \<noteq> [] \<and> (\<forall>c \<in> set gs. is_digit c)
             \<and> (t = ''exp='' @ gs @ ''~'' @ rs \<or> t = gs @ ''-'' @ rs)"
  shows "token_family t = None"
proof -
  have "expiry_re1 t = None"
  proof (cases "expiry_re1 t")
    case (Some g)
    from expiry_re1_Some[OF this] assms show ?thesis by blast
  qed simp
  moreover have "expiry_re2 t = None"
  proof (cases "expiry_re2 t")
    case (Some g)
    from expiry_re2_Some[OF this] assms show ?thesis by blast
  qed simp
  ultimately show ?thesis by (simp add: token_family_def)
qed

lemma same_family_Some:
  "same_family t hint \<longleftrightarrow> (\<exists>f. token_family t = Some f \<and> token_family hint = Some f)"
  by (auto simp: same_family_def)

lemma reload_auth_data_find:
  assumes "get_data R = Inr (Some (Some cands))"
  shows "reload_auth_data L R api hint =
     (case find_new_auth L R hint cands of
        Inl err \<Rightarrow> (api\<lparr>last_updated := time_refresh R, updating := True\<rparr>, Inl err)
      | Inr None \<Rightarrow> (api\<lparr>last_updated := time_refresh R, updating := True\<rparr>,
                     Inl (StreamError ''failed to get new auth data from URL''))
      | Inr (Some tok) \<Rightarrow>
          (api\<lparr>auth_data := Some tok, last_updated := time_refresh R, updating := False\<rparr>,
           Inr ()))"
  using assms by (simp add: reload_auth_data_def split: sum.splits option.splits)

text \<open>
  Claim C7, as the code has it. The family of a token is \<open>exp=<digits>~\<close>, \<open><digits>-\<close> or
  none. When \<open>get_data()\<close> has an \<open>hls\<close> entry, the candidates are taken in order, each
  resolved to the token of its URL after redirects. Candidates whose token does not have the
  family of the hint are skipped. The first one whose token has the family of the hint is
  installed and \<open>reload_auth_data\<close> returns; if instead a candidate cannot be resolved (its
  request raises, or its URL has no second path part) before any has matched,
  \<open>reload_auth_data\<close> raises that exception. If all candidates resolve and none has the
  family of the hint, it raises \<open>StreamError("failed to get new auth data from URL")\<close>, the
  code's error for a failed refresh.
\<close>

theorem C7_first_matching_candidate:
  assumes "get_data R = Inr (Some (Some cands))"
  shows "(ds \<noteq> [] \<and> (\<forall>c \<in> set ds. is_digit c) \<longrightarrow>
            token_family (''exp='' @ ds @ ''~'' @ rest) = Some FamilyExp
            \<and> token_family (ds @ ''-'' @ rest) = Some FamilyDigits)
    \<and> ((\<nexists>gs rs. gs \<noteq> [] \<and> (\<forall>c \<in> set gs. is_digit c)
                 \<and> (t0 = ''exp='' @ gs @ ''~'' @ rs \<or> t0 = gs @ ''-'' @ rs)) \<longrightarrow>
          token_family t0 = None)
    \<and> (cands = pre @ (n, v) # post
        \<and> (\<forall>c \<in> set pre. \<exists>t. candidate_token L R (snd c) = Inr t
               \<and> \<not> (\<exists>f. token_family t = Some f \<and> token_family hint = Some f)) \<longrightarrow>
          (candidate_token L R v = Inr tok
           \<and> (\<exists>f. token_family tok = Some f \<and> token_family hint = Some f) \<longrightarrow>
             reload_auth_data L R api hint
               = (api\<lparr>auth_data := Some tok, last_updated := time_refresh R, updating := False\<rparr>,
                  Inr ()))
          \<and> (candidate_token L R v = Inl err \<longrightarrow>
               reload_auth_data L R api hint
                 = (api\<lparr>last_updated := time_refresh R, updating := True\<rparr>, Inl err)))
    \<and> ((\<forall>c \<in> set cands. \<exists>t. candidate_token L R (snd c) = Inr t
               \<and> \<not> (\<exists>f. token_family t = Some f \<and> token_family hint = Some f)) \<longrightarrow>
          reload_auth_data L R api hint
            = (api\<lparr>last_updated := time_refresh R, updating := True\<rparr>,
               Inl (StreamError ''failed to get new auth data from URL'')))"
proof -
  have A: "ds \<noteq> [] \<and> (\<forall>c \<in> set ds. is_digit c) \<longrightarrow>
            token_family (''exp='' @ ds @ ''~'' @ rest) = Some FamilyExp
            \<and> token_family (ds @ ''-'' @ rest) = Some FamilyDigits"
    using token_family_forms[of ds rest] by blast
  have B: "(\<nexists>gs rs. gs \<noteq> [] \<and> (\<forall>c \<in> set gs. is_digit c)
                 \<and> (t0 = ''exp='' @ gs @ ''~'' @ rs \<or> t0 = gs @ ''-'' @ rs)) \<longrightarrow>
          token_family t0 = None"
    using token_family_None[of t0] by blast
  have C: "(candidate_token L R v = Inr tok
           \<and> (\<exists>f. token_family tok = Some f \<and> token_family hint = Some f) \<longrightarrow>
             reload_auth_data L R api hint
               = (api\<lparr>auth_data := Some tok, last_updated := time_refresh R, updating := False\<rparr>,
                  Inr ()))
          \<and> (candidate_token L R v = Inl err \<longrightarrow>
               reload_auth_data L R api hint
                 = (api\<lparr>last_updated := time_refresh R, updating := True\<rparr>, Inl err))"
    if h: "cands = pre @ (n, v) # post
        \<and> (\<forall>c \<in> set pre. \<exists>t. candidate_token L R (snd c) = Inr t
               \<and> \<not> (\<exists>f. token_family t = Some f \<and> token_family hint = Some f))"
  proof -
    from h have "\<forall>c \<in> set pre. \<exists>t. candidate_token L R (snd c) = Inr t \<and> \<not> same_family t hint"
      by (simp add: same_family_Some)
    then have "find_new_auth L R hint (pre @ (n, v) # post)
                 = find_new_auth L R hint ((n, v) # post)"
      by (rule find_new_auth_first)
    with h have f: "find_new_auth L R hint cands = find_new_auth L R hint ((n, v) # post)"
      by simp
    show ?thesis
      unfolding reload_auth_data_find[OF assms] f
      by (simp add: find_new_auth_Cons same_family_Some)
  qed
  have D: "reload_auth_data L R api hint
            = (api\<lparr>last_updated := time_refresh R, updating := True\<rparr>,
               Inl (StreamError ''failed to get new auth data from URL''))"
    if h: "\<forall>c \<in> set cands. \<exists>t. candidate_token L R (snd c) = Inr t
               \<and> \<not> (\<exists>f. token_family t = Some f \<and> token_family hint = Some f)"
  proof -
    from h have "\<forall>c \<in> set cands. \<exists>t. candidate_token L R (snd c) = Inr t
                   \<and> \<not> same_family t hint"
      by (simp add: same_family_Some)
    then have "find_new_auth L R hint (cands @ []) = find_new_auth L R hint []"
      by (rule find_new_auth_first)
    then have "find_new_auth L R hint cands = Inr None" by simp
    then show ?thesis unfolding reload_auth_data_find[OF assms] by simp
  qed
  from A B C D show ?thesis by blast
qed

lemma ex_token_nopath:
  "candidate_token ex_urllib ex_refresh (Some ''https://cdn.example'') = Inl IndexError"
  by (simp add: candidate_token_def ex_urllib_def ex_refresh_def ex_http_get_def)

lemma candidate_token_get_data:
  "candidate_token L (R\<lparr>get_data := g\<rparr>) v = candidate_token L R v"
  by (simp add: candidate_token_def)

text \<open>
  Against claim C7 as stated: the second candidate of the example resolves to a token of the
  hint's family, but the first is a URL without a path. The refresh neither skips it nor
  installs the token of the second, and the error is \<open>IndexError\<close>, not the
  \<open>StreamError\<close> of a failed refresh.
\<close>

theorem C7_counterexample:
  "get_data (ex_refresh\<lparr>get_data := Inr (Some (Some ex_cdns_nopath))\<rparr>)
     = Inr (Some (Some [(''akamai'', Some ''https://cdn.example''),
                        (''fastly'', Some ''https://cdn.example/live'')]))
   \<and> candidate_token ex_urllib (ex_refresh\<lparr>get_data := Inr (Some (Some ex_cdns_nopath))\<rparr>)
       (Some ''https://cdn.example/live'') = Inr ''exp=1700003600~hmac=new''
   \<and> token_family ''exp=1700003600~hmac=new'' = Some FamilyExp
   \<and> token_family ''exp=1700000000~hmac=old'' = Some FamilyExp
   \<and> reload_auth_data ex_urllib (ex_refresh\<lparr>get_data := Inr (Some (Some ex_cdns_nopath))\<rparr>)
       ex_api ''exp=1700000000~hmac=old''
     = (ex_api\<lparr>last_updated := 1699999951, updating := True\<rparr>, Inl IndexError)"
proof -
  let ?R = "ex_refresh\<lparr>get_data := Inr (Some (Some ex_cdns_nopath))\<rparr>"
  have "find_new_auth ex_urllib ?R ''exp=1700000000~hmac=old'' ex_cdns_nopath = Inl IndexError"
    by (simp add: ex_cdns_nopath_def find_new_auth_Cons candidate_token_get_data
        ex_token_nopath)
  then have "reload_auth_data ex_urllib ?R ex_api ''exp=1700000000~hmac=old''
     = (ex_api\<lparr>last_updated := 1699999951, updating := True\<rparr>, Inl IndexError)"
    by (simp add: reload_auth_data_def ex_refresh_def)
  then show ?thesis
    by (simp add: candidate_token_get_data ex_token_fastly ex_families ex_cdns_nopath_def)
qed

lemma ex_family_old_digits: "token_family ''1700000000-old'' = Some FamilyDigits"
  by (simp add: token_family_def expiry_re1_def expiry_re2_def digits_then_def is_digit_def)

theorem C7_first_matching_candidate_witness:
  "get_data ex_refresh = Inr (Some (Some ex_cdns))
   \<and> token_family ''exp=1700003600~hmac=new'' = Some FamilyExp
   \<and> token_family ''1700003600-hmac'' = Some FamilyDigits
   \<and> token_family ''abc123'' = None
   \<and> reload_auth_data ex_urllib ex_refresh ex_api ''exp=1700000000~hmac=old''
       = (ex_api\<lparr>auth_data := Some ''exp=1700003600~hmac=new'', last_updated := 1699999951\<rparr>,
          Inr ())
   \<and> reload_auth_data ex_urllib ex_refresh ex_api ''1700000000-old''
       = (ex_api\<lparr>auth_data := Some ''1700003600-hmac'', last_updated := 1699999951\<rparr>,
          Inr ())
   \<and> reload_auth_data ex_urllib ex_refresh ex_api ''abc123''
       = (ex_api\<lparr>last_updated := 1699999951, updating := True\<rparr>,
          Inl (StreamError ''failed to get new auth data from URL''))
   \<and> reload_auth_data ex_urllib (ex_refresh\<lparr>get_data := Inr (Some (Some ex_cdns_nopath))\<rparr>)
       ex_api ''exp=1700000000~hmac=old''
       = (ex_api\<lparr>last_updated := 1699999951, updating := True\<rparr>, Inl IndexError)"
proof -
  let ?old = "''exp=1700000000~hmac=old''"
  let ?R' = "ex_refresh\<lparr>get_data := Inr (Some (Some ex_cdns_nopath))\<rparr>"
  have g: "get_data ex_refresh = Inr (Some (Some ex_cdns))" by (simp add: ex_refresh_def)
  have g': "get_data ?R' = Inr (Some (Some ex_cdns_nopath))" by simp
  have d: "''1700003600'' \<noteq> [] \<and> (\<forall>c \<in> set ''1700003600''. is_digit c)"
    by (simp add: is_digit_def)
  have n: "\<nexists>gs rs. gs \<noteq> [] \<and> (\<forall>c \<in> set gs. is_digit c)
             \<and> (''abc123'' = ''exp='' @ gs @ ''~'' @ rs \<or> ''abc123'' = gs @ ''-'' @ rs)"
  proof
    assume "\<exists>gs rs. gs \<noteq> [] \<and> (\<forall>c \<in> set gs. is_digit c)
             \<and> (''abc123'' = ''exp='' @ gs @ ''~'' @ rs \<or> ''abc123'' = gs @ ''-'' @ rs)"
    then obtain gs rs where q: "gs \<noteq> []" "\<forall>c \<in> set gs. is_digit c"
      "''abc123'' = gs @ ''-'' @ rs" by auto
    from q(1) obtain c gs' where "gs = c # gs'" by (cases gs) auto
    with q(2,3) have "is_digit CHR ''a''" by simp
    then show False by (simp add: is_digit_def)
  qed
  note T = C7_first_matching_candidate[OF g, where L = ex_urllib and api = ex_api]
  from T[of "''1700003600''" "''hmac=new''"] d
  have f1: "token_family ''exp=1700003600~hmac=new'' = Some FamilyExp" by simp
  from T[of "''1700003600''" "''hmac''"] d
  have f2: "token_family ''1700003600-hmac'' = Some FamilyDigits" by simp
  from T[of _ _ "''abc123''"] n have f3: "token_family ''abc123'' = None" by blast
  have f4: "token_family ?old = Some FamilyExp" by (rule ex_families(1))
  have h1: "ex_cdns = [(''akamai'', Some ''https://cdn.example/1700003600-hmac/v/p.m3u8'')]
               @ (''fastly'', Some ''https://cdn.example/live'') # []
     \<and> (\<forall>c \<in> set [(''akamai'', Some ''https://cdn.example/1700003600-hmac/v/p.m3u8'')].
          \<exists>t. candidate_token ex_urllib ex_refresh (snd c) = Inr t
               \<and> \<not> (\<exists>f. token_family t = Some f \<and> token_family ?old = Some f))"
    by (simp add: ex_cdns_def ex_token_akamai f2 f4)
  have m1: "candidate_token ex_urllib ex_refresh (Some ''https://cdn.example/live'')
              = Inr ''exp=1700003600~hmac=new''
     \<and> (\<exists>f. token_family ''exp=1700003600~hmac=new'' = Some f \<and> token_family ?old = Some f)"
    by (simp add: ex_token_fastly f1 f4)
  from T[of _ _ _ "[(''akamai'', Some ''https://cdn.example/1700003600-hmac/v/p.m3u8'')]"
           "''fastly''" "Some ''https://cdn.example/live''" "[]" ?old
           "''exp=1700003600~hmac=new''"] h1 m1
  have r1: "reload_auth_data ex_urllib ex_refresh ex_api ?old
       = (ex_api\<lparr>auth_data := Some ''exp=1700003600~hmac=new'',
                  last_updated := time_refresh ex_refresh, updating := False\<rparr>, Inr ())"
    by blast
  have h2: "ex_cdns = [] @ (''akamai'', Some ''https://cdn.example/1700003600-hmac/v/p.m3u8'')
               # [(''fastly'', Some ''https://cdn.example/live'')]
     \<and> (\<forall>c \<in> set []. \<exists>t. candidate_token ex_urllib ex_refresh (snd c) = Inr t
               \<and> \<not> (\<exists>f. token_family t = Some f \<and> token_family ''1700000000-old'' = Some f))"
    by (simp add: ex_cdns_def)
  have m2: "candidate_token ex_urllib ex_refresh
              (Some ''https://cdn.example/1700003600-hmac/v/p.m3u8'') = Inr ''1700003600-hmac''
     \<and> (\<exists>f. token_family ''1700003600-hmac'' = Some f
              \<and> token_family ''1700000000-old'' = Some f)"
    by (simp add: ex_token_akamai f2 ex_family_old_digits)
  from T[of _ _ _ "[]" "''akamai''" "Some ''https://cdn.example/1700003600-hmac/v/p.m3u8''"
           "[(''fastly'', Some ''https://cdn.example/live'')]" "''1700000000-old''"
           "''1700003600-hmac''"] h2 m2
  have r2: "reload_auth_data ex_urllib ex_refresh ex_api ''1700000000-old''
       = (ex_api\<lparr>auth_data := Some ''1700003600-hmac'',
                  last_updated := time_refresh ex_refresh, updating := False\<rparr>, Inr ())"
    by blast
  have h3: "\<forall>c \<in> set ex_cdns. \<exists>t. candidate_token ex_urllib ex_refresh (snd c) = Inr t
               \<and> \<not> (\<exists>f. token_family t = Some f \<and> token_family ''abc123'' = Some f)"
    by (simp add: ex_cdns_def ex_token_akamai ex_token_fastly f3)
  from T[where hint = "''abc123''"] h3
  have r3: "reload_auth_data ex_urllib ex_refresh ex_api ''abc123''
       = (ex_api\<lparr>last_updated := time_refresh ex_refresh, updating := True\<rparr>,
          Inl (StreamError ''failed to get new auth data from URL''))"
    by blast
  have h4: "ex_cdns_nopath = [] @ (''akamai'', Some ''https://cdn.example'')
               # [(''fastly'', Some ''https://cdn.example/live'')]
     \<and> (\<forall>c \<in> set []. \<exists>t. candidate_token ex_urllib ?R' (snd c) = Inr t
               \<and> \<not> (\<exists>f. token_family t = Some f \<and> token_family ?old = Some f))"
    by (simp add: ex_cdns_nopath_def)
  have m4: "candidate_token ex_urllib ?R' (Some ''https://cdn.example'') = Inl IndexError"
    by (simp add: candidate_token_get_data ex_token_nopath)
  from C7_first_matching_candidate[OF g', where L = ex_urllib and api = ex_api,
         of _ _ _ "[]" "''akamai''" "Some ''https://cdn.example''"
           "[(''fastly'', Some ''https://cdn.example/live'')]" ?old _ IndexError] h4 m4
  have r4: "reload_auth_data ex_urllib ?R' ex_api ?old
       = (ex_api\<lparr>last_updated := time_refresh ?R', updating := True\<rparr>, Inl IndexError)"
    by blast
  from g f1 f2 f3 r1 r2 r3 r4 show ?thesis by (simp add: ex_refresh_def ex_api_def)
qed

subsection \<open>The refresh\<close>

lemma find_new_auth_Some:
  "find_new_auth L R hint cands = Inr (Some tok) \<Longrightarrow> same_family tok hint"
proof (induction cands)
  case Nil
  then show ?case by simp
next
  case (Cons c cands)
  obtain n v where c: "c = (n, v)" by (cases c)
  show ?case
  proof (cases "candidate_token L R v")
    case (Inl err)
    with Cons.prems c show ?thesis by (simp add: find_new_auth_Cons)
  next
    case (Inr t)
    show ?thesis
    proof (cases "same_family t hint")
      case True
      with Cons.prems c Inr show ?thesis by (simp add: find_new_auth_Cons)
    next
      case False
      with Cons.prems c Inr have "find_new_auth L R hint cands = Inr (Some tok)"
        by (simp add: find_new_auth_Cons)
      then show ?thesis by (rule Cons.IH)
    qed
  qed
qed

lemma reload_auth_data_fail:
  "snd (reload_auth_data L R api hint) = Inl err \<Longrightarrow>
   fst (reload_auth_data L R api hint) = api\<lparr>updating := True, last_updated := time_refresh R\<rparr>"
  by (auto simp: reload_auth_data_def Let_def split: sum.splits option.splits)

lemma reload_auth_data_ok:
  assumes "snd (reload_auth_data L R api hint) = Inr u"
  shows "\<exists>tok. same_family tok hint
     \<and> fst (reload_auth_data L R api hint)
         = api\<lparr>auth_data := Some tok, last_updated := time_refresh R, updating := False\<rparr>"
proof -
  from assms obtain cands tok where g: "get_data R = Inr (Some (Some cands))"
    and f: "find_new_auth L R hint cands = Inr (Some tok)"
    by (auto simp: reload_auth_data_def Let_def split: sum.splits option.splits)
  from f have "same_family tok hint" by (rule find_new_auth_Some)
  moreover from g f have "fst (reload_auth_data L R api hint)
         = api\<lparr>auth_data := Some tok, last_updated := time_refresh R, updating := False\<rparr>"
    by (simp add: reload_auth_data_def)
  ultimately show ?thesis by blast
qed

subsection \<open>One access\<close>

lemma url_apply_update_skip:
  "\<not> (s_need_update s \<and> \<not> updating api) \<Longrightarrow>
   url_apply_update L (s, api) = ((s, api), [], Inr ())"
  by (auto simp: url_apply_update_def)

lemma url_apply_update_swap:
  assumes "s_need_update s" "\<not> updating api" "auth_data api = Some tok"
    "set_expiry_time api tok = Inr api'" "2 \<le> length (s_path_parts s)"
  shows "url_apply_update L (s, api)
    = ((s\<lparr>s_path_parts := (s_path_parts s)[1 := tok],
          s_url := geturl L ((s_parsed_url s)\<lparr>url_path :=
                     str_join ''/'' ((s_path_parts s)[1 := tok])\<rparr>),
          s_need_update := False\<rparr>, api'),
       [LogDebug ''Reloaded Vimeo HLS URL''], Inr ())"
  using assms by (simp add: url_apply_update_def Let_def)

lemma url_apply_update_api:
  "updating (snd (fst (url_apply_update L (s, api)))) = updating api
   \<and> last_updated (snd (fst (url_apply_update L (s, api)))) = last_updated api
   \<and> auth_data (snd (fst (url_apply_update L (s, api)))) = auth_data api
   \<and> (\<forall>h. CallReloadAuthData h \<notin> set (fst (snd (url_apply_update L (s, api)))))"
  by (auto simp: url_apply_update_def set_expiry_time_def Let_def split: option.splits sum.splits)

lemma url_skip:
  "\<not> (s_need_update s \<and> \<not> updating api) \<Longrightarrow> url L E (s, api) = url_check_expiry L E (s, api)"
  by (simp add: url_def url_apply_update_skip split: prod.splits)

lemma url_check_expiry_fresh:
  "expiry_time api = Some x \<Longrightarrow> \<not> time_now E > real_of_int x \<Longrightarrow>
   url_check_expiry L E (s, api) = ((s, api), [], Inr (s_url s))"
  by (simp add: url_check_expiry_def)

lemma url_check_expiry_throttled:
  "expiry_time api = Some x \<Longrightarrow> time_now E > real_of_int x \<Longrightarrow>
   updating api \<or> time_now E - last_updated api < 60 \<Longrightarrow>
   url_check_expiry L E (s, api) = ((s\<lparr>s_need_update := True\<rparr>, api), [], Inr (s_url s))"
  by (auto simp: url_check_expiry_def expiry_time_limit_def)

lemma url_check_expiry_called:
  assumes "CallReloadAuthData h \<in> set (fst (snd (url_check_expiry L E (s, api))))"
  shows "\<exists>x. expiry_time api = Some x \<and> time_now E > real_of_int x \<and> \<not> updating api
           \<and> 60 \<le> time_now E - last_updated api \<and> 2 \<le> length (s_path_parts s)
           \<and> h = s_path_parts s ! 1
           \<and> url_check_expiry L E (s, api)
              = (case reload_auth_data L (refresh E) api h of
                   (api', Inl err) \<Rightarrow>
                     ((s, api'),
                      [LogDebug ''Reloading Vimeo auth data'', CallReloadAuthData h], Inl err)
                 | (api', Inr _) \<Rightarrow>
                     ((s\<lparr>s_need_update := True\<rparr>, api'),
                      [LogDebug ''Reloading Vimeo auth data'', CallReloadAuthData h],
                      Inr (s_url s)))"
proof (cases "expiry_time api")
  case None
  with assms show ?thesis by (simp add: url_check_expiry_def)
next
  case (Some x)
  show ?thesis
  proof (cases "time_now E > real_of_int x")
    case False
    with assms Some show ?thesis by (simp add: url_check_expiry_def)
  next
    case exp: True
    show ?thesis
    proof (cases "updating api \<or> time_now E - last_updated api < 60")
      case True
      with assms Some exp show ?thesis
        by (simp add: url_check_expiry_throttled)
    next
      case nt: False
      show ?thesis
      proof (cases "length (s_path_parts s) \<le> 1")
        case True
        with assms Some exp nt show ?thesis
          by (simp add: url_check_expiry_def expiry_time_limit_def)
      next
        case False
        obtain api' r where rr: "reload_auth_data L (refresh E) api (s_path_parts s ! 1) = (api', r)"
          by (cases "reload_auth_data L (refresh E) api (s_path_parts s ! 1)")
        have eq: "url_check_expiry L E (s, api)
              = (case reload_auth_data L (refresh E) api (s_path_parts s ! 1) of
                   (api', Inl err) \<Rightarrow>
                     ((s, api'),
                      [LogDebug ''Reloading Vimeo auth data'',
                       CallReloadAuthData (s_path_parts s ! 1)], Inl err)
                 | (api', Inr _) \<Rightarrow>
                     ((s\<lparr>s_need_update := True\<rparr>, api'),
                      [LogDebug ''Reloading Vimeo auth data'',
                       CallReloadAuthData (s_path_parts s ! 1)],
                      Inr (s_url s)))"
          using Some exp nt False
          by (simp add: url_check_expiry_def expiry_time_limit_def del: One_nat_def)
        with assms rr have "h = s_path_parts s ! 1" by (cases r) auto
        with eq Some exp nt False show ?thesis by auto
      qed
    qed
  qed
qed

lemma same_family_expiry:
  assumes "same_family tok hint"
  shows "\<exists>g. (expiry_re1 tok = Some g \<or> expiry_re2 tok = Some g)
            \<and> set_expiry_time api tok = Inr (api\<lparr>expiry_time := Some (int_of_digits g - 60)\<rparr>)"
proof (cases "expiry_re1 tok")
  case None
  with assms obtain g where g: "expiry_re2 tok = Some g"
    by (auto simp: same_family_iff)
  with None show ?thesis by (auto simp: set_expiry_time_def expiry_time_limit_def)
next
  case (Some g)
  then show ?thesis by (auto simp: set_expiry_time_def expiry_time_limit_def)
qed

lemma reload_auth_data_expiry:
  "expiry_time (fst (reload_auth_data L R api hint)) = expiry_time api"
  by (auto simp: reload_auth_data_def Let_def split: sum.splits option.splits)

lemma url_check_expiry_keeps:
  "expiry_time (snd (fst (url_check_expiry L E (s, api)))) = expiry_time api
   \<and> s_path_parts (fst (fst (url_check_expiry L E (s, api)))) = s_path_parts s
   \<and> s_url (fst (fst (url_check_expiry L E (s, api)))) = s_url s"
proof (cases "\<exists>h. CallReloadAuthData h \<in> set (fst (snd (url_check_expiry L E (s, api))))")
  case True
  then obtain h where "CallReloadAuthData h \<in> set (fst (snd (url_check_expiry L E (s, api))))"
    by blast
  from url_check_expiry_called[OF this] have eq: "url_check_expiry L E (s, api)
              = (case reload_auth_data L (refresh E) api h of
                   (api', Inl err) \<Rightarrow>
                     ((s, api'),
                      [LogDebug ''Reloading Vimeo auth data'', CallReloadAuthData h], Inl err)
                 | (api', Inr _) \<Rightarrow>
                     ((s\<lparr>s_need_update := True\<rparr>, api'),
                      [LogDebug ''Reloading Vimeo auth data'', CallReloadAuthData h],
                      Inr (s_url s)))" by blast
  obtain api' r where rr: "reload_auth_data L (refresh E) api h = (api', r)"
    by (cases "reload_auth_data L (refresh E) api h")
  with reload_auth_data_expiry[of L "refresh E" api h] have "expiry_time api' = expiry_time api"
    by simp
  with eq rr show ?thesis by (cases r) simp_all
next
  case False
  then show ?thesis
    by (auto simp: url_check_expiry_def split: option.splits if_splits prod.splits sum.splits)
qed

lemma url_called:
  assumes "CallReloadAuthData h \<in> set (fst (snd (url L E (s, api))))"
  obtains s0 api0 tr0 where "url_apply_update L (s, api) = ((s0, api0), tr0, Inr ())"
    and "CallReloadAuthData h \<in> set (fst (snd (url_check_expiry L E (s0, api0))))"
    and "url L E (s, api)
           = (fst (url_check_expiry L E (s0, api0)),
              tr0 @ fst (snd (url_check_expiry L E (s0, api0))),
              snd (snd (url_check_expiry L E (s0, api0))))"
proof -
  obtain s0 api0 tr0 r0 where a: "url_apply_update L (s, api) = ((s0, api0), tr0, r0)"
    by (metis prod.exhaust)
  have na: "CallReloadAuthData h \<notin> set tr0"
    using url_apply_update_api[of L s api] a by simp
  show ?thesis
  proof (cases r0)
    case (Inl err)
    with a assms na show ?thesis by (simp add: url_def)
  next
    case (Inr u)
    obtain sa2 tr2 r2 where c: "url_check_expiry L E (s0, api0) = (sa2, tr2, r2)"
      by (metis prod.exhaust)
    from a Inr c have u: "url L E (s, api) = (sa2, tr0 @ tr2, r2)" by (simp add: url_def)
    with assms na have "CallReloadAuthData h \<in> set tr2" by simp
    with a Inr c u that[of s0 api0 tr0] show ?thesis by simp
  qed
qed

lemma ex_reload:
  "reload_auth_data ex_urllib ex_refresh api ''exp=1700000000~hmac=old''
     = (api\<lparr>auth_data := Some ''exp=1700003600~hmac=new'', last_updated := 1699999951,
             updating := False\<rparr>, Inr ())"
proof -
  have "\<not> same_family ''1700003600-hmac'' ''exp=1700000000~hmac=old''"
    "same_family ''exp=1700003600~hmac=new'' ''exp=1700000000~hmac=old''"
    by (simp_all add: same_family_def ex_families)
  then have "find_new_auth ex_urllib ex_refresh ''exp=1700000000~hmac=old'' ex_cdns
               = Inr (Some ''exp=1700003600~hmac=new'')"
    by (simp add: ex_cdns_def find_new_auth_Cons ex_token_akamai ex_token_fastly)
  then show ?thesis by (simp add: reload_auth_data_def ex_refresh_def)
qed

lemma ex_set_expiry_new:
  "set_expiry_time api ''exp=1700003600~hmac=new'' = Inr (api\<lparr>expiry_time := Some 1700003540\<rparr>)"
  by (simp add: set_expiry_time_def expiry_re1_def digits_then_def is_digit_def
      int_of_digits_def expiry_time_limit_def)

text \<open>
  Against claim C6 as stated: after the refresh of the example has returned, \<open>auth_data\<close> is
  the new token, and \<open>expiry_time\<close> is still that of the old token, not the one that
  \<open>set_expiry_time\<close> computes from the new token.
\<close>

theorem C6_counterexample:
  "snd (reload_auth_data ex_urllib ex_refresh ex_api ''exp=1700000000~hmac=old'') = Inr ()
   \<and> auth_data (fst (reload_auth_data ex_urllib ex_refresh ex_api ''exp=1700000000~hmac=old''))
       = Some ''exp=1700003600~hmac=new''
   \<and> expiry_time (fst (reload_auth_data ex_urllib ex_refresh ex_api ''exp=1700000000~hmac=old''))
       = Some (1700000000 - 60)
   \<and> set_expiry_time ex_api ''exp=1700003600~hmac=new''
       = Inr (ex_api\<lparr>expiry_time := Some (1700003600 - 60)\<rparr>)"
  by (simp add: ex_reload ex_set_expiry_new) (simp add: ex_api_def)

text \<open>
  Claim C6, as the code has it. A successful \<open>reload_auth_data\<close> installs a token of the
  hint's family in \<open>auth_data\<close>, records its start time and clears \<open>updating\<close> before it
  returns; \<open>expiry_time\<close> keeps its old value. The expiry time of the new token is set by the
  next access of \<open>url\<close> on a stream with a pending update, which in that same access puts the
  token into the path and the URL of the stream.
\<close>

theorem C6_token_then_expiry:
  assumes "reload_auth_data L R api hint = (api', Inr u)"
  shows "\<not> updating api' \<and> last_updated api' = time_refresh R
    \<and> expiry_time api' = expiry_time api
    \<and> (\<exists>tok g. auth_data api' = Some tok \<and> same_family tok hint
          \<and> (expiry_re1 tok = Some g \<or> expiry_re2 tok = Some g)
          \<and> (\<forall>s E. s_need_update s \<and> 2 \<le> length (s_path_parts s) \<longrightarrow>
                expiry_time (snd (fst (url L E (s, api')))) = Some (int_of_digits g - 60)
                \<and> s_path_parts (fst (fst (url L E (s, api')))) = (s_path_parts s)[1 := tok]
                \<and> s_url (fst (fst (url L E (s, api'))))
                    = geturl L ((s_parsed_url s)\<lparr>url_path :=
                        str_join ''/'' ((s_path_parts s)[1 := tok])\<rparr>)))"
proof -
  from assms have sn: "snd (reload_auth_data L R api hint) = Inr u"
    and fs: "fst (reload_auth_data L R api hint) = api'" by simp_all
  from reload_auth_data_ok[OF sn] fs obtain tok where sf: "same_family tok hint"
    and a': "api' = api\<lparr>auth_data := Some tok, last_updated := time_refresh R, updating := False\<rparr>"
    by auto
  from same_family_expiry[OF sf, of api'] obtain g where
    g: "expiry_re1 tok = Some g \<or> expiry_re2 tok = Some g"
    and se: "set_expiry_time api' tok = Inr (api'\<lparr>expiry_time := Some (int_of_digits g - 60)\<rparr>)"
    by blast
  have acc: "expiry_time (snd (fst (url L E (s, api')))) = Some (int_of_digits g - 60)
                \<and> s_path_parts (fst (fst (url L E (s, api')))) = (s_path_parts s)[1 := tok]
                \<and> s_url (fst (fst (url L E (s, api'))))
                    = geturl L ((s_parsed_url s)\<lparr>url_path :=
                        str_join ''/'' ((s_path_parts s)[1 := tok])\<rparr>)"
    if h: "s_need_update s \<and> 2 \<le> length (s_path_parts s)" for s E
  proof -
    let ?s' = "s\<lparr>s_path_parts := (s_path_parts s)[1 := tok],
          s_url := geturl L ((s_parsed_url s)\<lparr>url_path :=
                     str_join ''/'' ((s_path_parts s)[1 := tok])\<rparr>),
          s_need_update := False\<rparr>"
    let ?a' = "api'\<lparr>expiry_time := Some (int_of_digits g - 60)\<rparr>"
    have sw: "url_apply_update L (s, api') = ((?s', ?a'), [LogDebug ''Reloaded Vimeo HLS URL''], Inr ())"
      using h a' se by (intro url_apply_update_swap) simp_all
    obtain sa2 tr2 r2 where c: "url_check_expiry L E (?s', ?a') = (sa2, tr2, r2)"
      by (metis prod.exhaust)
    from sw c have "url L E (s, api') = (sa2, [LogDebug ''Reloaded Vimeo HLS URL''] @ tr2, r2)"
      by (simp add: url_def)
    then have "fst (url L E (s, api')) = fst (url_check_expiry L E (?s', ?a'))"
      using c by simp
    then show ?thesis using url_check_expiry_keeps[of L E ?s' ?a'] by simp
  qed
  from a' have "\<not> updating api' \<and> last_updated api' = time_refresh R
    \<and> expiry_time api' = expiry_time api \<and> auth_data api' = Some tok" by simp
  with sf g acc show ?thesis by blast
qed

theorem C6_token_then_expiry_witness:
  "reload_auth_data ex_urllib ex_refresh ex_api ''exp=1700000000~hmac=old''
     = (ex_api\<lparr>auth_data := Some ''exp=1700003600~hmac=new'', last_updated := 1699999951\<rparr>,
        Inr ())
   \<and> expiry_time (ex_api\<lparr>auth_data := Some ''exp=1700003600~hmac=new'',
                          last_updated := 1699999951\<rparr>) = Some 1699999940
   \<and> expiry_time (snd (fst (url ex_urllib \<lparr>time_now = 1699999960, refresh = ex_refresh\<rparr>
        (ex_stream\<lparr>s_need_update := True\<rparr>,
         ex_api\<lparr>auth_data := Some ''exp=1700003600~hmac=new'', last_updated := 1699999951\<rparr>))))
       = Some 1700003540
   \<and> s_url (fst (fst (url ex_urllib \<lparr>time_now = 1699999960, refresh = ex_refresh\<rparr>
        (ex_stream\<lparr>s_need_update := True\<rparr>,
         ex_api\<lparr>auth_data := Some ''exp=1700003600~hmac=new'', last_updated := 1699999951\<rparr>))))
       = ''https://cdn.example/exp=1700003600~hmac=new/v/p.m3u8''"
proof -
  let ?a = "ex_api\<lparr>auth_data := Some ''exp=1700003600~hmac=new'', last_updated := 1699999951\<rparr>"
  let ?s = "ex_stream\<lparr>s_need_update := True\<rparr>"
  let ?E = "\<lparr>time_now = 1699999960, refresh = ex_refresh\<rparr>"
  have r: "reload_auth_data ex_urllib ex_refresh ex_api ''exp=1700000000~hmac=old'' = (?a, Inr ())"
    by (simp add: ex_reload) (simp add: ex_api_def)
  have h: "s_need_update ?s \<and> 2 \<le> length (s_path_parts ?s)" by (simp add: ex_stream_def)
  from C6_token_then_expiry[OF r] obtain tok g where
    t: "auth_data ?a = Some tok" "expiry_re1 tok = Some g \<or> expiry_re2 tok = Some g"
    and acc: "\<forall>s E. s_need_update s \<and> 2 \<le> length (s_path_parts s) \<longrightarrow>
                expiry_time (snd (fst (url ex_urllib E (s, ?a)))) = Some (int_of_digits g - 60)
                \<and> s_path_parts (fst (fst (url ex_urllib E (s, ?a)))) = (s_path_parts s)[1 := tok]
                \<and> s_url (fst (fst (url ex_urllib E (s, ?a))))
                    = geturl ex_urllib ((s_parsed_url s)\<lparr>url_path :=
                        str_join ''/'' ((s_path_parts s)[1 := tok])\<rparr>)"
    by blast
  from t(1) have tok: "tok = ''exp=1700003600~hmac=new''" by simp
  with t(2) have g: "g = ''1700003600''"
    by (simp add: expiry_re1_def expiry_re2_def digits_then_def is_digit_def)
  from acc h have "expiry_time (snd (fst (url ex_urllib ?E (?s, ?a)))) = Some (int_of_digits g - 60)
     \<and> s_url (fst (fst (url ex_urllib ?E (?s, ?a))))
          = geturl ex_urllib ((s_parsed_url ?s)\<lparr>url_path :=
                        str_join ''/'' ((s_path_parts ?s)[1 := tok])\<rparr>)"
    by blast
  then have "expiry_time (snd (fst (url ex_urllib ?E (?s, ?a)))) = Some 1700003540
     \<and> s_url (fst (fst (url ex_urllib ?E (?s, ?a))))
          = ''https://cdn.example/exp=1700003600~hmac=new/v/p.m3u8''"
    unfolding tok g by (simp add: int_of_digits_def ex_urllib_def ex_stream_def)
  moreover have "expiry_time ?a = Some 1699999940" by (simp add: ex_api_def)
  ultimately show ?thesis using r by blast
qed

lemma url_check_expiry_ret:
  assumes "snd (snd (url_check_expiry L E (s, api))) = Inr u"
  shows "u = s_url s"
proof (cases "\<exists>h. CallReloadAuthData h \<in> set (fst (snd (url_check_expiry L E (s, api))))")
  case True
  then obtain h where "CallReloadAuthData h \<in> set (fst (snd (url_check_expiry L E (s, api))))"
    by blast
  from url_check_expiry_called[OF this] have eq: "url_check_expiry L E (s, api)
              = (case reload_auth_data L (refresh E) api h of
                   (api', Inl err) \<Rightarrow>
                     ((s, api'),
                      [LogDebug ''Reloading Vimeo auth data'', CallReloadAuthData h], Inl err)
                 | (api', Inr _) \<Rightarrow>
                     ((s\<lparr>s_need_update := True\<rparr>, api'),
                      [LogDebug ''Reloading Vimeo auth data'', CallReloadAuthData h],
                      Inr (s_url s)))" by blast
  obtain api' r where rr: "reload_auth_data L (refresh E) api h = (api', r)"
    by (cases "reload_auth_data L (refresh E) api h")
  with eq assms show ?thesis by (cases r) simp_all
next
  case False
  with assms show ?thesis
    by (auto simp: url_check_expiry_def split: option.splits if_splits prod.splits sum.splits)
qed

lemma url_updating:
  assumes "updating api" "expiry_time api = Some x" "real_of_int x < time_now E"
  shows "url L E (s, api) = ((s\<lparr>s_need_update := True\<rparr>, api), [], Inr (s_url s))"
proof -
  from assms(1) have "\<not> (s_need_update s \<and> \<not> updating api)" by simp
  then have "url L E (s, api) = url_check_expiry L E (s, api)" by (rule url_skip)
  also have "\<dots> = ((s\<lparr>s_need_update := True\<rparr>, api), [], Inr (s_url s))"
    using assms by (intro url_check_expiry_throttled[of api x]) auto
  finally show ?thesis .
qed

lemma url_accesses_updating:
  assumes "updating api" "expiry_time api = Some x" "\<forall>E \<in> set Es. real_of_int x < time_now E"
  shows "url_accesses L Es (s, api)
           = map (\<lambda>E. ((s\<lparr>s_need_update := True\<rparr>, api), [], Inr (s_url s))) Es"
  using assms(3)
proof (induction Es arbitrary: s)
  case Nil
  then show ?case by simp
next
  case (Cons E Es)
  from Cons.prems have t: "real_of_int x < time_now E" by simp
  have u: "url L E (s, api) = ((s\<lparr>s_need_update := True\<rparr>, api), [], Inr (s_url s))"
    using assms(1,2) t by (rule url_updating)
  from Cons.prems have "\<forall>E \<in> set Es. real_of_int x < time_now E" by simp
  from Cons.IH[OF this, of "s\<lparr>s_need_update := True\<rparr>"] u show ?case
    by (simp add: Let_def)
qed

text \<open>
  Claim C10. When an access of \<open>url\<close> has called \<open>reload_auth_data\<close> and an exception has
  left it, the API object is left with \<open>updating\<close> set and with \<open>last_updated\<close> at the start
  time of the failed call; \<open>reload_auth_data\<close> clears \<open>updating\<close> exactly when it returns.
  From then on, as long as the clock does not run backwards, every access of \<open>url\<close> on a stream
  that refers to this API object sets \<open>_need_update\<close>, returns the URL of the stream unchanged
  and calls nothing.
\<close>

theorem C10_failed_refresh_sticks:
  assumes "url L E1 (s, api) = ((s1, api1), tr1, Inl err)"
    and "CallReloadAuthData h \<in> set tr1"
  shows "updating api1 \<and> last_updated api1 = time_refresh (refresh E1)
    \<and> (reload_auth_data L R a hint = (a', res) \<longrightarrow> (updating a' \<longleftrightarrow> res \<noteq> Inr ()))
    \<and> ((\<forall>E \<in> set Es. time_now E1 \<le> time_now E) \<longrightarrow>
         url_accesses L Es (s', api1)
           = map (\<lambda>E. ((s'\<lparr>s_need_update := True\<rparr>, api1), [], Inr (s_url s'))) Es)"
proof -
  from assms have c: "CallReloadAuthData h \<in> set (fst (snd (url L E1 (s, api))))" by simp
  from url_called[OF c] obtain s0 api0 tr0 where
    k: "CallReloadAuthData h \<in> set (fst (snd (url_check_expiry L E1 (s0, api0))))"
    and u: "url L E1 (s, api)
           = (fst (url_check_expiry L E1 (s0, api0)),
              tr0 @ fst (snd (url_check_expiry L E1 (s0, api0))),
              snd (snd (url_check_expiry L E1 (s0, api0))))"
    by blast
  from url_check_expiry_called[OF k] obtain x where
    x: "expiry_time api0 = Some x" "real_of_int x < time_now E1"
    and eq: "url_check_expiry L E1 (s0, api0)
              = (case reload_auth_data L (refresh E1) api0 h of
                   (api', Inl err) \<Rightarrow>
                     ((s0, api'),
                      [LogDebug ''Reloading Vimeo auth data'', CallReloadAuthData h], Inl err)
                 | (api', Inr _) \<Rightarrow>
                     ((s0\<lparr>s_need_update := True\<rparr>, api'),
                      [LogDebug ''Reloading Vimeo auth data'', CallReloadAuthData h],
                      Inr (s_url s0)))"
    by blast
  obtain api' r where rr: "reload_auth_data L (refresh E1) api0 h = (api', r)"
    by (cases "reload_auth_data L (refresh E1) api0 h")
  from assms(1) u eq rr have r: "r = Inl err" and a1: "api1 = api'" and s1: "s1 = s0"
    by (cases r; simp)+
  from rr r have "snd (reload_auth_data L (refresh E1) api0 h) = Inl err" by simp
  from reload_auth_data_fail[OF this] rr a1
  have api1: "api1 = api0\<lparr>updating := True, last_updated := time_refresh (refresh E1)\<rparr>"
    by simp
  then have up: "updating api1" and lu: "last_updated api1 = time_refresh (refresh E1)"
    and ex: "expiry_time api1 = Some x" using x(1) by simp_all
  have fl: "reload_auth_data L R a hint = (a', res) \<longrightarrow> (updating a' \<longleftrightarrow> res \<noteq> Inr ())"
    by (auto simp: reload_auth_data_def Let_def split: sum.splits option.splits)
  have later: "url_accesses L Es (s', api1)
           = map (\<lambda>E. ((s'\<lparr>s_need_update := True\<rparr>, api1), [], Inr (s_url s'))) Es"
    if "\<forall>E \<in> set Es. time_now E1 \<le> time_now E"
  proof -
    from that x(2) have "\<forall>E \<in> set Es. real_of_int x < time_now E" by fastforce
    with up ex show ?thesis by (rule url_accesses_updating)
  qed
  from up lu fl later show ?thesis by blast
qed

theorem C10_failed_refresh_sticks_witness:
  "url ex_urllib \<lparr>time_now = 1699999950, refresh = ex_refresh\<lparr>get_data := Inr None\<rparr>\<rparr>
     (ex_stream, ex_api)
     = ((ex_stream, ex_api\<lparr>last_updated := 1699999951, updating := True\<rparr>),
        [LogDebug ''Reloading Vimeo auth data'', CallReloadAuthData ''exp=1700000000~hmac=old''],
        Inl (StreamError ''no video data found''))
   \<and> url_accesses ex_urllib
       [\<lparr>time_now = 1700000020, refresh = ex_refresh\<rparr>,
        \<lparr>time_now = 1700000100, refresh = ex_refresh\<rparr>]
       (ex_stream, ex_api\<lparr>last_updated := 1699999951, updating := True\<rparr>)
     = [((ex_stream\<lparr>s_need_update := True\<rparr>,
          ex_api\<lparr>last_updated := 1699999951, updating := True\<rparr>), [],
         Inr ''https://cdn.example/exp=1700000000~hmac=old/v/p.m3u8''),
        ((ex_stream\<lparr>s_need_update := True\<rparr>,
          ex_api\<lparr>last_updated := 1699999951, updating := True\<rparr>), [],
         Inr ''https://cdn.example/exp=1700000000~hmac=old/v/p.m3u8'')]"
proof -
  let ?E1 = "\<lparr>time_now = 1699999950, refresh = ex_refresh\<lparr>get_data := Inr None\<rparr>\<rparr>"
  let ?a1 = "ex_api\<lparr>last_updated := 1699999951, updating := True\<rparr>"
  let ?tr = "[LogDebug ''Reloading Vimeo auth data'',
              CallReloadAuthData ''exp=1700000000~hmac=old'']"
  let ?Es = "[\<lparr>time_now = 1700000020, refresh = ex_refresh\<rparr>,
              \<lparr>time_now = 1700000100, refresh = ex_refresh\<rparr>]"
  have f: "reload_auth_data ex_urllib (ex_refresh\<lparr>get_data := Inr None\<rparr>) ex_api
             ''exp=1700000000~hmac=old''
           = (?a1, Inl (StreamError ''no video data found''))"
    by (simp add: reload_auth_data_def ex_refresh_def)
  have u: "url ex_urllib ?E1 (ex_stream, ex_api)
             = ((ex_stream, ?a1), ?tr, Inl (StreamError ''no video data found''))"
    by (simp add: url_skip ex_stream_def)
       (simp add: url_check_expiry_def ex_api_def expiry_time_limit_def f [unfolded ex_api_def])
  have c: "CallReloadAuthData ''exp=1700000000~hmac=old'' \<in> set ?tr" by simp
  have t: "\<forall>E \<in> set ?Es. time_now ?E1 \<le> time_now E" by simp
  from C10_failed_refresh_sticks[OF u c, of _ _ _ _ _ ?Es ex_stream] t
  have "url_accesses ex_urllib ?Es (ex_stream, ?a1)
           = map (\<lambda>E. ((ex_stream\<lparr>s_need_update := True\<rparr>, ?a1), [], Inr (s_url ex_stream))) ?Es"
    by blast
  with u show ?thesis by (simp add: ex_stream_def)
qed

lemma ex_init:
  "stream_init ex_urllib ''https://cdn.example/exp=1700000000~hmac=old/v/p.m3u8''
     (api_init 1699990000) = Inr (ex_stream, ex_api)"
  by (simp add: stream_init_def api_init_def ex_urllib_def ex_stream_def ex_api_def Let_def
      set_expiry_time_def expiry_re1_def digits_then_def is_digit_def int_of_digits_def
      expiry_time_limit_def)

lemma url_check_expiry_reload:
  assumes "expiry_time api = Some x" "real_of_int x < time_now E" "\<not> updating api"
    "60 \<le> time_now E - last_updated api" "2 \<le> length (s_path_parts s)"
  shows "url_check_expiry L E (s, api)
           = (case reload_auth_data L (refresh E) api (s_path_parts s ! 1) of
                (api', Inl err) \<Rightarrow>
                  ((s, api'),
                   [LogDebug ''Reloading Vimeo auth data'',
                    CallReloadAuthData (s_path_parts s ! 1)], Inl err)
              | (api', Inr _) \<Rightarrow>
                  ((s\<lparr>s_need_update := True\<rparr>, api'),
                   [LogDebug ''Reloading Vimeo auth data'',
                    CallReloadAuthData (s_path_parts s ! 1)], Inr (s_url s)))"
  using assms by (simp add: url_check_expiry_def expiry_time_limit_def del: One_nat_def)

text \<open>
  Claim C2, as the code has it. An access of \<open>url\<close> on a stream without a pending update,
  made after the expiry time with the API not updating and 60 seconds or more after
  \<open>last_updated\<close>, calls \<open>reload_auth_data\<close> with the token of the stream. If that raises, so
  does the access. If it returns, the access sets \<open>_need_update\<close> and returns the URL that the
  stream had before the refresh, while the API object now holds a new token of the old token's
  family. Every next access writes that token into the path of the stream, and the URL it
  returns, when it returns, is the one with the new token. The access leaves \<open>_need_update\<close>
  cleared and calls nothing when the new token has not itself expired at that access.
\<close>

theorem C2_refresh_then_swap:
  assumes "\<not> s_need_update s" and "expiry_time api = Some x" and "real_of_int x < time_now E1"
    and "\<not> updating api" and "60 \<le> time_now E1 - last_updated api"
    and "2 \<le> length (s_path_parts s)"
  shows "(reload_auth_data L (refresh E1) api (s_path_parts s ! 1) = (api1, Inl err) \<longrightarrow>
           url L E1 (s, api)
             = ((s, api1),
                [LogDebug ''Reloading Vimeo auth data'',
                 CallReloadAuthData (s_path_parts s ! 1)], Inl err))
    \<and> (reload_auth_data L (refresh E1) api (s_path_parts s ! 1) = (api1, Inr ()) \<longrightarrow>
           url L E1 (s, api)
             = ((s\<lparr>s_need_update := True\<rparr>, api1),
                [LogDebug ''Reloading Vimeo auth data'',
                 CallReloadAuthData (s_path_parts s ! 1)], Inr (s_url s))
         \<and> \<not> updating api1
         \<and> (\<exists>tok x'. auth_data api1 = Some tok
               \<and> (\<exists>f. token_family tok = Some f
                       \<and> token_family (s_path_parts s ! 1) = Some f)
               \<and> set_expiry_time api1 tok = Inr (api1\<lparr>expiry_time := Some x'\<rparr>)
               \<and> (\<forall>E2. s_path_parts (fst (fst (url L E2 (s\<lparr>s_need_update := True\<rparr>, api1))))
                          = (s_path_parts s)[1 := tok]
                     \<and> (\<forall>u2. snd (snd (url L E2 (s\<lparr>s_need_update := True\<rparr>, api1))) = Inr u2
                           \<longrightarrow> u2 = geturl L ((s_parsed_url s)\<lparr>url_path :=
                                        str_join ''/'' ((s_path_parts s)[1 := tok])\<rparr>)))
               \<and> (\<forall>E2. time_now E2 \<le> real_of_int x' \<longrightarrow>
                     url L E2 (s\<lparr>s_need_update := True\<rparr>, api1)
                       = ((s\<lparr>s_path_parts := (s_path_parts s)[1 := tok],
                             s_url := geturl L ((s_parsed_url s)\<lparr>url_path :=
                                        str_join ''/'' ((s_path_parts s)[1 := tok])\<rparr>),
                             s_need_update := False\<rparr>,
                           api1\<lparr>expiry_time := Some x'\<rparr>),
                          [LogDebug ''Reloaded Vimeo HLS URL''],
                          Inr (geturl L ((s_parsed_url s)\<lparr>url_path :=
                                 str_join ''/'' ((s_path_parts s)[1 := tok])\<rparr>))))))"
proof -
  let ?h = "s_path_parts s ! 1"
  let ?tr = "[LogDebug ''Reloading Vimeo auth data'', CallReloadAuthData ?h]"
  from assms(1) have "url L E1 (s, api) = url_check_expiry L E1 (s, api)"
    by (simp add: url_skip)
  also note url_check_expiry_reload[OF assms(2-6), of L]
  finally have u: "url L E1 (s, api)
           = (case reload_auth_data L (refresh E1) api ?h of
                (api', Inl err) \<Rightarrow> ((s, api'), ?tr, Inl err)
              | (api', Inr _) \<Rightarrow> ((s\<lparr>s_need_update := True\<rparr>, api'), ?tr, Inr (s_url s)))" .
  have F: "url L E1 (s, api) = ((s, api1), ?tr, Inl err)"
    if "reload_auth_data L (refresh E1) api ?h = (api1, Inl err)"
    unfolding u using that by simp
  have S: "url L E1 (s, api) = ((s\<lparr>s_need_update := True\<rparr>, api1), ?tr, Inr (s_url s))
         \<and> \<not> updating api1
         \<and> (\<exists>tok x'. auth_data api1 = Some tok
               \<and> (\<exists>f. token_family tok = Some f \<and> token_family ?h = Some f)
               \<and> set_expiry_time api1 tok = Inr (api1\<lparr>expiry_time := Some x'\<rparr>)
               \<and> (\<forall>E2. s_path_parts (fst (fst (url L E2 (s\<lparr>s_need_update := True\<rparr>, api1))))
                          = (s_path_parts s)[1 := tok]
                     \<and> (\<forall>u2. snd (snd (url L E2 (s\<lparr>s_need_update := True\<rparr>, api1))) = Inr u2
                           \<longrightarrow> u2 = geturl L ((s_parsed_url s)\<lparr>url_path :=
                                        str_join ''/'' ((s_path_parts s)[1 := tok])\<rparr>)))
               \<and> (\<forall>E2. time_now E2 \<le> real_of_int x' \<longrightarrow>
                     url L E2 (s\<lparr>s_need_update := True\<rparr>, api1)
                       = ((s\<lparr>s_path_parts := (s_path_parts s)[1 := tok],
                             s_url := geturl L ((s_parsed_url s)\<lparr>url_path :=
                                        str_join ''/'' ((s_path_parts s)[1 := tok])\<rparr>),
                             s_need_update := False\<rparr>,
                           api1\<lparr>expiry_time := Some x'\<rparr>),
                          [LogDebug ''Reloaded Vimeo HLS URL''],
                          Inr (geturl L ((s_parsed_url s)\<lparr>url_path :=
                                 str_join ''/'' ((s_path_parts s)[1 := tok])\<rparr>)))))"
    if ok: "reload_auth_data L (refresh E1) api ?h = (api1, Inr ())"
  proof -
    let ?s1 = "s\<lparr>s_need_update := True\<rparr>"
    from ok have u1: "url L E1 (s, api) = ((?s1, api1), ?tr, Inr (s_url s))"
      unfolding u by simp
    from ok have sn: "snd (reload_auth_data L (refresh E1) api ?h) = Inr ()" by simp
    from reload_auth_data_ok[OF sn] ok obtain tok where sf: "same_family tok ?h"
      and api1: "api1 = api\<lparr>auth_data := Some tok, last_updated := time_refresh (refresh E1),
                          updating := False\<rparr>"
      by auto
    from sf have fam: "\<exists>f. token_family tok = Some f \<and> token_family ?h = Some f"
      by (simp add: same_family_Some)
    from same_family_expiry[OF sf, of api1] obtain gd where
      se: "set_expiry_time api1 tok = Inr (api1\<lparr>expiry_time := Some (int_of_digits gd - 60)\<rparr>)"
      by blast
    let ?x' = "int_of_digits gd - 60"
    let ?new = "geturl L ((s_parsed_url s)\<lparr>url_path :=
                   str_join ''/'' ((s_path_parts s)[1 := tok])\<rparr>)"
    let ?s2 = "s\<lparr>s_path_parts := (s_path_parts s)[1 := tok], s_url := ?new,
                  s_need_update := False\<rparr>"
    let ?a2 = "api1\<lparr>expiry_time := Some ?x'\<rparr>"
    have sw: "url_apply_update L (?s1, api1)
                = ((?s2, ?a2), [LogDebug ''Reloaded Vimeo HLS URL''], Inr ())"
      using url_apply_update_swap[of ?s1 api1 tok ?a2 L] api1 se assms(6) by simp
    have every: "s_path_parts (fst (fst (url L E2 (?s1, api1)))) = (s_path_parts s)[1 := tok]
                  \<and> (\<forall>u2. snd (snd (url L E2 (?s1, api1))) = Inr u2 \<longrightarrow> u2 = ?new)" for E2
    proof -
      obtain sa2 tr2 r2 where ce: "url_check_expiry L E2 (?s2, ?a2) = (sa2, tr2, r2)"
        by (metis prod.exhaust)
      from sw ce have "url L E2 (?s1, api1)
                         = (sa2, [LogDebug ''Reloaded Vimeo HLS URL''] @ tr2, r2)"
        by (simp add: url_def)
      then have "fst (url L E2 (?s1, api1)) = fst (url_check_expiry L E2 (?s2, ?a2))"
        and "snd (snd (url L E2 (?s1, api1))) = snd (snd (url_check_expiry L E2 (?s2, ?a2)))"
        using ce by simp_all
      then show ?thesis
        using url_check_expiry_keeps[of L E2 ?s2 ?a2] url_check_expiry_ret[of L E2 ?s2 ?a2]
        by simp
    qed
    have nxt: "url L E2 (?s1, api1) = ((?s2, ?a2), [LogDebug ''Reloaded Vimeo HLS URL''], Inr ?new)"
      if t2: "time_now E2 \<le> real_of_int ?x'" for E2
    proof -
      have "url_check_expiry L E2 (?s2, ?a2) = ((?s2, ?a2), [], Inr (s_url ?s2))"
        using t2 by (intro url_check_expiry_fresh[of ?a2 ?x']) simp_all
      with sw show ?thesis by (simp add: url_def)
    qed
    from api1 have "\<not> updating api1" "auth_data api1 = Some tok" by simp_all
    with u1 fam se every nxt show ?thesis by blast
  qed
  from F S show ?thesis by blast
qed

lemma ex_reload_stale:
  "reload_auth_data ex_urllib (ex_refresh\<lparr>get_data := Inr (Some (Some ex_cdns_stale))\<rparr>) api
     ''exp=1700000000~hmac=old''
     = (api\<lparr>auth_data := Some ''exp=1700000000~hmac=new'', last_updated := 1699999951,
             updating := False\<rparr>, Inr ())"
proof -
  let ?R = "ex_refresh\<lparr>get_data := Inr (Some (Some ex_cdns_stale))\<rparr>"
  have t: "candidate_token ex_urllib ex_refresh
             (Some ''https://cdn.example/exp=1700000000~hmac=new/v/p.m3u8'')
           = Inr ''exp=1700000000~hmac=new''"
    by (simp add: candidate_token_def ex_urllib_def ex_refresh_def ex_http_get_def)
  have "token_family ''exp=1700000000~hmac=new'' = Some FamilyExp"
    by (simp add: token_family_def expiry_re1_def digits_then_def is_digit_def)
  then have "same_family ''exp=1700000000~hmac=new'' ''exp=1700000000~hmac=old''"
    by (simp add: same_family_def ex_families)
  then have "find_new_auth ex_urllib ?R ''exp=1700000000~hmac=old'' ex_cdns_stale
               = Inr (Some ''exp=1700000000~hmac=new'')"
    by (simp add: ex_cdns_stale_def find_new_auth_Cons candidate_token_get_data t)
  then show ?thesis by (simp add: reload_auth_data_def ex_refresh_def)
qed

lemma ex_set_expiry_stale:
  "set_expiry_time api ''exp=1700000000~hmac=new'' = Inr (api\<lparr>expiry_time := Some 1699999940\<rparr>)"
  by (simp add: set_expiry_time_def expiry_re1_def digits_then_def is_digit_def
      int_of_digits_def expiry_time_limit_def)

text \<open>
  Against claim C2 as stated: the stream of the example, as \<open>__init__\<close> leaves it, and a
  refresh that returns a token with the expiry time of the old one. The access after the
  refresh writes the new token into the URL, but the test of line 53 comes after that and
  finds the new token expired as well: the access ends with \<open>_need_update\<close> set.
\<close>

theorem C2_counterexample:
  "stream_init ex_urllib ''https://cdn.example/exp=1700000000~hmac=old/v/p.m3u8''
     (api_init 1699990000) = Inr (ex_stream, ex_api)
   \<and> url ex_urllib
       \<lparr>time_now = 1699999950,
        refresh = ex_refresh\<lparr>get_data := Inr (Some (Some ex_cdns_stale))\<rparr>\<rparr>
       (ex_stream, ex_api)
     = ((ex_stream\<lparr>s_need_update := True\<rparr>,
         ex_api\<lparr>auth_data := Some ''exp=1700000000~hmac=new'', last_updated := 1699999951\<rparr>),
        [LogDebug ''Reloading Vimeo auth data'', CallReloadAuthData ''exp=1700000000~hmac=old''],
        Inr ''https://cdn.example/exp=1700000000~hmac=old/v/p.m3u8'')
   \<and> url ex_urllib \<lparr>time_now = 1699999960, refresh = ex_refresh\<rparr>
       (ex_stream\<lparr>s_need_update := True\<rparr>,
        ex_api\<lparr>auth_data := Some ''exp=1700000000~hmac=new'', last_updated := 1699999951\<rparr>)
     = ((ex_stream\<lparr>s_path_parts := [[], ''exp=1700000000~hmac=new'', ''v'', ''p.m3u8''],
                    s_url := ''https://cdn.example/exp=1700000000~hmac=new/v/p.m3u8'',
                    s_need_update := True\<rparr>,
         ex_api\<lparr>auth_data := Some ''exp=1700000000~hmac=new'', last_updated := 1699999951\<rparr>),
        [LogDebug ''Reloaded Vimeo HLS URL''],
        Inr ''https://cdn.example/exp=1700000000~hmac=new/v/p.m3u8'')"
proof -
  let ?R = "ex_refresh\<lparr>get_data := Inr (Some (Some ex_cdns_stale))\<rparr>"
  have a: "url ex_urllib \<lparr>time_now = 1699999950, refresh = ?R\<rparr> (ex_stream, ex_api)
     = ((ex_stream\<lparr>s_need_update := True\<rparr>,
         ex_api\<lparr>auth_data := Some ''exp=1700000000~hmac=new'', last_updated := 1699999951\<rparr>),
        [LogDebug ''Reloading Vimeo auth data'', CallReloadAuthData ''exp=1700000000~hmac=old''],
        Inr ''https://cdn.example/exp=1700000000~hmac=old/v/p.m3u8'')"
    by (simp add: url_skip ex_stream_def)
       (simp add: url_check_expiry_def ex_api_def expiry_time_limit_def ex_reload_stale)
  have b: "url ex_urllib \<lparr>time_now = 1699999960, refresh = ex_refresh\<rparr>
       (ex_stream\<lparr>s_need_update := True\<rparr>,
        ex_api\<lparr>auth_data := Some ''exp=1700000000~hmac=new'', last_updated := 1699999951\<rparr>)
     = ((ex_stream\<lparr>s_path_parts := [[], ''exp=1700000000~hmac=new'', ''v'', ''p.m3u8''],
                    s_url := ''https://cdn.example/exp=1700000000~hmac=new/v/p.m3u8'',
                    s_need_update := True\<rparr>,
         ex_api\<lparr>auth_data := Some ''exp=1700000000~hmac=new'', last_updated := 1699999951\<rparr>),
        [LogDebug ''Reloaded Vimeo HLS URL''],
        Inr ''https://cdn.example/exp=1700000000~hmac=new/v/p.m3u8'')"
    by (simp add: url_def url_apply_update_def ex_set_expiry_stale url_check_expiry_def Let_def
        ex_api_def ex_stream_def ex_urllib_def expiry_time_limit_def)
  from ex_init a b show ?thesis by simp
qed

theorem C2_refresh_then_swap_witness:
  "\<not> s_need_update ex_stream \<and> expiry_time ex_api = Some 1699999940
   \<and> real_of_int 1699999940 < time_now \<lparr>time_now = 1699999950, refresh = ex_refresh\<rparr>
   \<and> \<not> updating ex_api
   \<and> 60 \<le> time_now \<lparr>time_now = 1699999950, refresh = ex_refresh\<rparr> - last_updated ex_api
   \<and> 2 \<le> length (s_path_parts ex_stream)
   \<and> url ex_urllib \<lparr>time_now = 1699999950, refresh = ex_refresh\<rparr> (ex_stream, ex_api)
     = ((ex_stream\<lparr>s_need_update := True\<rparr>,
         ex_api\<lparr>auth_data := Some ''exp=1700003600~hmac=new'', last_updated := 1699999951\<rparr>),
        [LogDebug ''Reloading Vimeo auth data'', CallReloadAuthData ''exp=1700000000~hmac=old''],
        Inr ''https://cdn.example/exp=1700000000~hmac=old/v/p.m3u8'')
   \<and> url ex_urllib \<lparr>time_now = 1699999960, refresh = ex_refresh\<rparr>
        (ex_stream\<lparr>s_need_update := True\<rparr>,
         ex_api\<lparr>auth_data := Some ''exp=1700003600~hmac=new'', last_updated := 1699999951\<rparr>)
     = ((ex_stream\<lparr>s_path_parts := [[], ''exp=1700003600~hmac=new'', ''v'', ''p.m3u8''],
                    s_url := ''https://cdn.example/exp=1700003600~hmac=new/v/p.m3u8''\<rparr>,
         ex_api\<lparr>auth_data := Some ''exp=1700003600~hmac=new'', expiry_time := Some 1700003540,
                 last_updated := 1699999951\<rparr>),
        [LogDebug ''Reloaded Vimeo HLS URL''],
        Inr ''https://cdn.example/exp=1700003600~hmac=new/v/p.m3u8'')
   \<and> url ex_urllib \<lparr>time_now = 1699999950, refresh = ex_refresh\<lparr>get_data := Inr None\<rparr>\<rparr>
        (ex_stream, ex_api)
     = ((ex_stream, ex_api\<lparr>last_updated := 1699999951, updating := True\<rparr>),
        [LogDebug ''Reloading Vimeo auth data'', CallReloadAuthData ''exp=1700000000~hmac=old''],
        Inl (StreamError ''no video data found''))"
proof -
  let ?E1 = "\<lparr>time_now = 1699999950, refresh = ex_refresh\<rparr>"
  let ?E1f = "\<lparr>time_now = 1699999950, refresh = ex_refresh\<lparr>get_data := Inr None\<rparr>\<rparr>"
  let ?E2 = "\<lparr>time_now = 1699999960, refresh = ex_refresh\<rparr>"
  let ?s1 = "ex_stream\<lparr>s_need_update := True\<rparr>"
  let ?a1 = "ex_api\<lparr>auth_data := Some ''exp=1700003600~hmac=new'', last_updated := 1699999951\<rparr>"
  let ?af = "ex_api\<lparr>last_updated := 1699999951, updating := True\<rparr>"
  have h: "\<not> s_need_update ex_stream" "expiry_time ex_api = Some 1699999940"
    "real_of_int 1699999940 < time_now ?E1" "\<not> updating ex_api"
    "60 \<le> time_now ?E1 - last_updated ex_api" "2 \<le> length (s_path_parts ex_stream)"
    by (simp_all add: ex_stream_def ex_api_def)
  have hf: "real_of_int 1699999940 < time_now ?E1f" "60 \<le> time_now ?E1f - last_updated ex_api"
    by (simp_all add: ex_api_def)
  have p1: "s_path_parts ex_stream ! 1 = ''exp=1700000000~hmac=old''"
    by (simp add: ex_stream_def)
  have r: "reload_auth_data ex_urllib (refresh ?E1) ex_api (s_path_parts ex_stream ! 1)
             = (?a1, Inr ())"
    unfolding p1 by (simp add: ex_reload) (simp add: ex_api_def)
  have f: "reload_auth_data ex_urllib (refresh ?E1f) ex_api (s_path_parts ex_stream ! 1)
             = (?af, Inl (StreamError ''no video data found''))"
    unfolding p1 by (simp add: reload_auth_data_def ex_refresh_def)
  note T = C2_refresh_then_swap[OF h, of ex_urllib ?a1]
  from T r have u: "url ex_urllib ?E1 (ex_stream, ex_api)
     = ((?s1, ?a1),
        [LogDebug ''Reloading Vimeo auth data'',
         CallReloadAuthData (s_path_parts ex_stream ! 1)], Inr (s_url ex_stream))"
    by blast
  from T r obtain tok x' where
    tk: "auth_data ?a1 = Some tok"
    and se: "set_expiry_time ?a1 tok = Inr (?a1\<lparr>expiry_time := Some x'\<rparr>)"
    and nx: "\<forall>E2. time_now E2 \<le> real_of_int x' \<longrightarrow>
                url ex_urllib E2 (?s1, ?a1)
                  = ((ex_stream\<lparr>s_path_parts := (s_path_parts ex_stream)[1 := tok],
                         s_url := geturl ex_urllib ((s_parsed_url ex_stream)\<lparr>url_path :=
                                    str_join ''/'' ((s_path_parts ex_stream)[1 := tok])\<rparr>),
                         s_need_update := False\<rparr>,
                      ?a1\<lparr>expiry_time := Some x'\<rparr>),
                     [LogDebug ''Reloaded Vimeo HLS URL''],
                     Inr (geturl ex_urllib ((s_parsed_url ex_stream)\<lparr>url_path :=
                            str_join ''/'' ((s_path_parts ex_stream)[1 := tok])\<rparr>)))"
    by blast
  from tk have tok: "tok = ''exp=1700003600~hmac=new''" by simp
  from se have "expiry_time (?a1\<lparr>expiry_time := Some 1700003540\<rparr>)
                  = expiry_time (?a1\<lparr>expiry_time := Some x'\<rparr>)"
    unfolding tok ex_set_expiry_new by simp
  then have x': "x' = 1700003540" by simp
  have "time_now ?E2 \<le> real_of_int x'" unfolding x' by simp
  with nx have "url ex_urllib ?E2 (?s1, ?a1)
                  = ((ex_stream\<lparr>s_path_parts := (s_path_parts ex_stream)[1 := tok],
                         s_url := geturl ex_urllib ((s_parsed_url ex_stream)\<lparr>url_path :=
                                    str_join ''/'' ((s_path_parts ex_stream)[1 := tok])\<rparr>),
                         s_need_update := False\<rparr>,
                      ?a1\<lparr>expiry_time := Some x'\<rparr>),
                     [LogDebug ''Reloaded Vimeo HLS URL''],
                     Inr (geturl ex_urllib ((s_parsed_url ex_stream)\<lparr>url_path :=
                            str_join ''/'' ((s_path_parts ex_stream)[1 := tok])\<rparr>)))"
    by blast
  then have n: "url ex_urllib ?E2 (?s1, ?a1)
     = ((ex_stream\<lparr>s_path_parts := [[], ''exp=1700003600~hmac=new'', ''v'', ''p.m3u8''],
                    s_url := ''https://cdn.example/exp=1700003600~hmac=new/v/p.m3u8''\<rparr>,
         ex_api\<lparr>auth_data := Some ''exp=1700003600~hmac=new'', expiry_time := Some 1700003540,
                 last_updated := 1699999951\<rparr>),
        [LogDebug ''Reloaded Vimeo HLS URL''],
        Inr ''https://cdn.example/exp=1700003600~hmac=new/v/p.m3u8'')"
    unfolding tok x' by (simp add: ex_stream_def ex_urllib_def ex_api_def)
  from C2_refresh_then_swap[OF h(1,2) hf(1) h(4) hf(2) h(6), of ex_urllib ?af] f
  have uf: "url ex_urllib ?E1f (ex_stream, ex_api)
     = ((ex_stream, ?af),
        [LogDebug ''Reloading Vimeo auth data'',
         CallReloadAuthData (s_path_parts ex_stream ! 1)],
        Inl (StreamError ''no video data found''))"
    by blast
  from h u n uf show ?thesis unfolding p1 by (simp add: ex_stream_def)
qed

subsection \<open>The guard of the refresh\<close>


lemma thread_step_Returned [simp]: "thread_step L E (api, s, Returned r) = (api, s, Returned r)"
  by (simp add: thread_step_def)















end
